theory Spec2Isabelle
  imports Complex_Main
begin

section \<open>Chunked video upload: data model\<close>

text \<open>
  The development follows the component \<open>EnhancedVideoUpload\<close>. Byte counts, offsets and
  indices are JavaScript numbers holding integers and are modelled as \<open>int\<close>. A \<open>Blob\<close> is
  modelled by its size in bytes, which is all the component reads of it.
\<close>

subsection \<open>JavaScript numbers\<close>

text \<open>
  The progress figures are quotients of JavaScript numbers, and the source divides without
  testing the divisor. The special values of IEEE 754 are therefore part of the model:
  \<open>Fin 0\<close> is \<open>+0\<close>, \<open>NegZero\<close> is \<open>-0\<close>. Arithmetic on finite non-zero values is exact:
  rounding, overflow and underflow are not modelled.
\<close>

datatype jsnum = NaN | PosInf | NegInf | NegZero | Fin real

definition js_int :: "int \<Rightarrow> jsnum" where
  "js_int i = Fin (real_of_int i)"

definition js_zero :: "jsnum \<Rightarrow> bool" where
  "js_zero x = (x = Fin 0 \<or> x = NegZero)"

definition js_inf :: "jsnum \<Rightarrow> bool" where
  "js_inf x = (x = PosInf \<or> x = NegInf)"

fun js_neg :: "jsnum \<Rightarrow> bool" where
  "js_neg NegInf = True"
| "js_neg NegZero = True"
| "js_neg (Fin r) = (r < 0)"
| "js_neg _ = False"

fun js_val :: "jsnum \<Rightarrow> real" where
  "js_val (Fin r) = r"
| "js_val _ = 0"

definition mk_inf :: "bool \<Rightarrow> jsnum" where
  "mk_inf negative = (if negative then NegInf else PosInf)"

definition mk_zero :: "bool \<Rightarrow> jsnum" where
  "mk_zero negative = (if negative then NegZero else Fin 0)"

definition js_div :: "jsnum \<Rightarrow> jsnum \<Rightarrow> jsnum" where
  "js_div a b =
     (if a = NaN \<or> b = NaN then NaN
      else if js_inf a \<and> js_inf b then NaN
      else if js_zero a \<and> js_zero b then NaN
      else if js_inf a \<or> js_zero b then mk_inf (js_neg a \<noteq> js_neg b)
      else if js_zero a \<or> js_inf b then mk_zero (js_neg a \<noteq> js_neg b)
      else Fin (js_val a / js_val b))"

definition js_mul :: "jsnum \<Rightarrow> jsnum \<Rightarrow> jsnum" where
  "js_mul a b =
     (if a = NaN \<or> b = NaN then NaN
      else if (js_inf a \<and> js_zero b) \<or> (js_zero a \<and> js_inf b) then NaN
      else if js_inf a \<or> js_inf b then mk_inf (js_neg a \<noteq> js_neg b)
      else if js_zero a \<or> js_zero b then mk_zero (js_neg a \<noteq> js_neg b)
      else Fin (js_val a * js_val b))"



subsection \<open>Files, chunks and progress\<close>

record File =
  f_name :: string
  f_size :: int
  f_type :: string

record UploadChunk =
  chunk :: int
  index :: int
  start :: int
  end' :: int
  uploaded :: bool

text \<open>
  \<open>Blob.slice(start, end)\<close> of the File API, as the size of the blob it returns: a negative
  offset counts from the end, offsets are clamped to the blob, and an empty span gives
  an empty blob.
\<close>

definition slice :: "int \<Rightarrow> int \<Rightarrow> int \<Rightarrow> int" where
  "slice fsize s e =
     (let relativeStart = (if s < 0 then max (fsize + s) 0 else min s fsize);
          relativeEnd = (if e < 0 then max (fsize + e) 0 else min e fsize)
      in max (relativeEnd - relativeStart) 0)"

text \<open>
  The partitioning loop of \<open>initializeUpload\<close>. It does not end when the chunk size is not
  positive and the file is not empty, so it is a partial function: \<open>None\<close> is the loop
  that never returns.
\<close>

partial_function (option) createChunksLoop ::
  "int \<Rightarrow> int \<Rightarrow> int \<Rightarrow> int \<Rightarrow> UploadChunk list \<Rightarrow> UploadChunk list option" where
  "createChunksLoop fsize chunkSize s i chunks =
     (if s < fsize then
        (let e = min (s + chunkSize) fsize;
             c = slice fsize s e
         in createChunksLoop fsize chunkSize e (i + 1)
              (chunks @ [\<lparr>chunk = c, index = i, start = s, end' = e, uploaded = False\<rparr>]))
      else Some chunks)"

declare createChunksLoop.simps [code]

definition createChunks :: "int \<Rightarrow> int \<Rightarrow> UploadChunk list option" where
  "createChunks fsize chunkSize = createChunksLoop fsize chunkSize 0 0 []"

text \<open>The chunk the loop builds in its round \<open>k\<close>, and the number of rounds, in closed form.\<close>

definition chunkAt :: "int \<Rightarrow> int \<Rightarrow> nat \<Rightarrow> UploadChunk" where
  "chunkAt fsize cs k =
     \<lparr>chunk = slice fsize (int k * cs) (min ((int k + 1) * cs) fsize),
      index = int k, start = int k * cs, end' = min ((int k + 1) * cs) fsize,
      uploaded = False\<rparr>"

definition numChunks :: "int \<Rightarrow> int \<Rightarrow> nat" where
  "numChunks fsize cs = nat \<lceil>real_of_int fsize / real_of_int cs\<rceil>"

datatype status = Idle | Uploading | Processing | Completed | Error

text \<open>
  What the component can throw. The \<open>error\<close> field of the progress holds the message of
  the exception it was set from, which is kept here as the exception itself.
\<close>

datatype exn =
    FailedToInitialize
  | UploadNotInitialized
  | FailedToUploadChunk int
  | FailedToComplete
  | FetchRejected string
  | JsonRejected string
  | NullData
  | CallbackThrew

record UploadProgress =
  total' :: int
  uploaded' :: int
  percentage :: jsnum
  speed :: jsnum
  remaining :: jsnum
  chunks :: "UploadChunk list"
  status :: status
  error :: "exn option"

record VideoMetadata =
  duration :: jsnum
  width :: int
  height :: int
  size' :: int
  format :: "string option"
  thumbnail :: "string option"

datatype difficulty = Beginner | Intermediate | Advanced

datatype privacy = Public | Private | Unlisted

subsection \<open>Component state and properties\<close>

text \<open>The \<open>useState\<close> cells of the component, in the order of the source.\<close>

record state =
  open' :: bool
  videoFile :: "File option"
  videoMetadata :: "VideoMetadata option"
  uploadProgress :: UploadProgress
  uploadId :: "string option"
  uploadUrl :: "string option"
  uploadPreset :: "string option"
  cloudName :: "string option"
  title :: string
  description :: string
  position :: int
  tags :: "string list"
  difficulty :: difficulty
  isPreview :: bool
  enableComments :: bool
  enableDownloads :: bool
  selectedQuality :: string
  selectedFormat :: string
  enableWatermark :: bool
  enableSubtitles :: bool
  privacy :: privacy

text \<open>
  The properties the claims depend on. \<open>onSuccess\<close> is optional; a callback is modelled
  by whether it returns (\<open>True\<close>) or throws (\<open>False\<close>) on the URL it is given.
\<close>

record props =
  courseId :: string
  onSuccess :: "(string option \<Rightarrow> bool) option"
  maxFileSize :: int
  allowedFormats :: "string list"
  chunkSize :: int
  enableResume :: bool

definition DEFAULT_CHUNK_SIZE :: int where
  "DEFAULT_CHUNK_SIZE = 5 * 1024 * 1024"

definition DEFAULT_MAX_FILE_SIZE :: int where
  "DEFAULT_MAX_FILE_SIZE = 2 * 1024 * 1024 * 1024"

definition SUPPORTED_FORMATS :: "string list" where
  "SUPPORTED_FORMATS = [''mp4'', ''avi'', ''mov'', ''wmv'', ''flv'', ''webm'', ''mkv'', ''m4v'']"

definition initialProgress :: UploadProgress where
  "initialProgress =
     \<lparr>total' = 0, uploaded' = 0, percentage = Fin 0, speed = Fin 0, remaining = Fin 0,
      chunks = [], status = Idle, error = None\<rparr>"

definition initialState :: state where
  "initialState =
     \<lparr>open' = False, videoFile = None, videoMetadata = None,
      uploadProgress = initialProgress,
      uploadId = None, uploadUrl = None, uploadPreset = None, cloudName = None,
      title = [], description = [], position = 0, tags = [], difficulty = Beginner,
      isPreview = False, enableComments = True, enableDownloads = False,
      selectedQuality = ''auto'', selectedFormat = ''mp4'',
      enableWatermark = False, enableSubtitles = False, privacy = Public\<rparr>"

subsection \<open>The environment and the trace\<close>

text \<open>
  What the network, the clock and the media decoder answer is a parameter of the model.
  A \<open>fetch\<close> either rejects or resolves to a response with a status and a body;
  \<open>response.json()\<close> rejects on a body that is not JSON, and \<open>null\<close> is a JSON value.
\<close>

datatype 'a body = BadJson string | JsonNull | Json 'a

datatype 'a response = Rejected string | Response int "'a body"

definition ok :: "int \<Rightarrow> bool" where
  "ok s = (200 \<le> s \<and> s \<le> 299)"

record initData =
  d_uploadId :: "string option"
  d_uploadUrl :: "string option"
  d_uploadPreset :: "string option"
  d_cloudName :: "string option"

record env =
  initResponse :: "initData response"
  chunkResponse :: "nat \<Rightarrow> unit response"
  completeResponse :: "string option response"
  startTime :: int
  dateNow :: "nat \<Rightarrow> int"
  extracted :: "(jsnum \<times> int \<times> int \<times> string option) option"

text \<open>
  \<open>chunkResponse env i\<close> answers the request of round \<open>i\<close> of the transfer loop,
  \<open>startTime env\<close> is the clock when the loop starts and \<open>dateNow env i\<close> the clock after
  round \<open>i\<close>, in milliseconds. \<open>extracted env\<close> is what the decoder reports of the selected
  file (duration, width, height, thumbnail), \<open>None\<close> when it fails. The body of the
  completion response is \<open>data.video?.url\<close>.

  The trace records the requests sent, the toasts shown, the calls of \<open>onSuccess\<close> and
  every progress value stored, with the place that stored it.
\<close>

datatype request =
    InitPost string int string
  | ChunkPost string int string int nat "string option"
  | CompletePost string string string string int "string list" difficulty
      bool bool bool string string bool bool privacy

datatype toast = ToastPlain | ToastError | ToastInfo | ToastSuccess

datatype update =
    Initialized | ChunkUploaded nat | ChunkFailed nat
  | UploadCompleted | CompletionFailed | UploadFailed | FormReset

datatype event =
    Fetch request
  | Toast toast string
  | OnSuccess "string option"
  | SetProgress update UploadProgress

datatype outcome = Returned | Threw exn

section \<open>The operations of the component\<close>

text \<open>
  Each callback of the component is a function of the properties \<open>p\<close>, of the environment,
  of the values its closure holds, and of the state its updates act on. A callback made by
  \<open>useCallback\<close> reads the state cells of the render that created it: these are the
  argument \<open>snap\<close>, a state of the component. Its updates \<open>setX(v)\<close> and
  \<open>setUploadProgress(prev => ...)\<close> act on the current state, the argument \<open>st\<close>, which is
  returned updated. Console output is not modelled.

  One \<open>snap\<close> serves all callbacks reached from a handler. The dependency lists name
  every cell a callback reads, except \<open>uploadProgress.total\<close> in \<open>uploadChunks\<close>, which
  changes only together with \<open>uploadProgress.chunks\<close>; and each callback that calls
  another lists it (\<open>resetForm\<close>, which reads no cell, apart). So \<open>handleUpload\<close>,
  \<open>initializeUpload\<close>, \<open>uploadChunks\<close>, \<open>uploadChunk\<close> and \<open>completeUpload\<close> read the cells
  of one render, also after an \<open>await\<close>.
\<close>

subsection \<open>Strings\<close>

text \<open>
  Strings are lists of characters with codes 0 to 255, read as the code units of
  Latin-1. On these, \<open>toLowerCase\<close> moves A to Z and the capital letters from 192 to 222
  (215, the multiplication sign, apart) up by 32, and \<open>trim\<close> removes the control
  characters 9 to 13, the space and the no-break space.
\<close>

definition toLowerCaseChar :: "char \<Rightarrow> char" where
  "toLowerCaseChar c =
     (let n = (of_char c :: nat)
      in if (65 \<le> n \<and> n \<le> 90) \<or> (192 \<le> n \<and> n \<le> 222 \<and> n \<noteq> 215)
         then char_of (n + 32) else c)"

definition toLowerCase :: "string \<Rightarrow> string" where
  "toLowerCase s = map toLowerCaseChar s"

fun split_str :: "char \<Rightarrow> string \<Rightarrow> string list" where
  "split_str sep [] = [[]]"
| "split_str sep (c # cs) =
     (if c = sep then [] # split_str sep cs
      else (case split_str sep cs of
              [] \<Rightarrow> [[c]]
            | w # ws \<Rightarrow> (c # w) # ws))"

definition pop :: "'a list \<Rightarrow> 'a option" where
  "pop xs = (if xs = [] then None else Some (last xs))"

definition startsWith :: "string \<Rightarrow> string \<Rightarrow> bool" where
  "startsWith s pre = (take (length pre) s = pre)"

definition isSpace :: "char \<Rightarrow> bool" where
  "isSpace c = (let n = (of_char c :: nat) in (9 \<le> n \<and> n \<le> 13) \<or> n = 32 \<or> n = 160)"

definition trim :: "string \<Rightarrow> string" where
  "trim s = rev (dropWhile isSpace (rev (dropWhile isSpace s)))"

text \<open>\<open>name.replace(/\.[^/.]+$/, '')\<close>: a last dot followed by at least one character, none
  of them a slash, is cut off with what follows it.\<close>

definition stripExtension :: "string \<Rightarrow> string" where
  "stripExtension name =
     (let suffix = takeWhile (\<lambda>c. c \<noteq> CHR ''.'') (rev name)
      in if CHR ''.'' \<in> set name \<and> suffix \<noteq> [] \<and> CHR ''/'' \<notin> set suffix
         then rev (tl (dropWhile (\<lambda>c. c \<noteq> CHR ''.'') (rev name)))
         else name)"

text \<open>\<open>!s\<close> for a string that may be \<open>null\<close> or \<open>undefined\<close>.\<close>

definition falsy :: "string option \<Rightarrow> bool" where
  "falsy s = (s = None \<or> s = Some [])"

subsection \<open>File validation and selection\<close>

text \<open>\<open>name.split('.').pop()?.toLowerCase()\<close>\<close>

definition extension :: "string \<Rightarrow> string option" where
  "extension name = map_option toLowerCase (pop (split_str CHR ''.'' name))"

text \<open>The three messages of \<open>validateFile\<close> are kept as the check that produced them.\<close>

datatype validationError = TooLarge | UnsupportedFormat | NotVideo

record validation =
  valid :: bool
  reason :: "validationError option"

definition validateFile :: "props \<Rightarrow> File \<Rightarrow> validation" where
  "validateFile p f =
     (if f_size f > maxFileSize p then \<lparr>valid = False, reason = Some TooLarge\<rparr>
      else
        (let ext = extension (f_name f)
         in if falsy ext \<or> the ext \<notin> set (allowedFormats p)
            then \<lparr>valid = False, reason = Some UnsupportedFormat\<rparr>
            else if \<not> startsWith (f_type f) ''video/''
            then \<lparr>valid = False, reason = Some NotVideo\<rparr>
            else \<lparr>valid = True, reason = None\<rparr>))"

text \<open>
  \<open>handleFileSelect\<close>: the argument is \<open>e.target.files?.[0]\<close>. The toast of a selected file
  also shows its size, which is left out of the message here.
\<close>

definition handleFileSelect :: "props \<Rightarrow> env \<Rightarrow> File option \<Rightarrow> state \<Rightarrow> state \<times> event list" where
  "handleFileSelect p env selected st =
     (case selected of
        None \<Rightarrow> (st, [])
      | Some f \<Rightarrow>
          if \<not> valid (validateFile p f) then (st, [Toast ToastError ''Invalid file''])
          else
            (let st1 = st\<lparr>videoFile := Some f\<rparr>
             in case extracted env of
                  None \<Rightarrow> (st1, [Toast ToastError ''Failed to process video file''])
                | Some (d, w, h, thumb) \<Rightarrow>
                    (st1\<lparr>videoMetadata := Some
                            \<lparr>duration = d, width = w, height = h, size' = f_size f,
                             format = extension (f_name f),
                             thumbnail = thumb\<rparr>,
                         title := stripExtension (f_name f)\<rparr>,
                     [Toast ToastPlain (''File selected: '' @ f_name f)])))"

subsection \<open>Session initialisation\<close>

definition initializeUpload ::
  "props \<Rightarrow> env \<Rightarrow> state \<Rightarrow> state \<Rightarrow> (outcome \<times> state \<times> event list) option" where
  "initializeUpload p env snap st =
     (case videoFile snap of
        None \<Rightarrow> Some (Returned, st, [])
      | Some f \<Rightarrow>
          (let req = Fetch (InitPost (f_name f) (f_size f) (courseId p));
               failed = (\<lambda>e. Some (Threw e, st,
                            [req, Toast ToastError ''Failed to initialize upload'']))
           in case initResponse env of
                Rejected m \<Rightarrow> failed (FetchRejected m)
              | Response s b \<Rightarrow>
                  if \<not> ok s then failed FailedToInitialize
                  else
                    (case b of
                       BadJson m \<Rightarrow> failed (JsonRejected m)
                     | JsonNull \<Rightarrow> failed NullData
                     | Json d \<Rightarrow>
                         (case createChunks (f_size f) (chunkSize p) of
                            None \<Rightarrow> None
                          | Some cs \<Rightarrow>
                              (let st' = st\<lparr>uploadId := d_uploadId d,
                                            uploadUrl := d_uploadUrl d,
                                            uploadPreset := d_uploadPreset d,
                                            cloudName := d_cloudName d,
                                            uploadProgress := (uploadProgress st)
                                              \<lparr>total' := f_size f, chunks := cs,
                                               status := Uploading\<rparr>\<rparr>
                               in Some (Returned, st',
                                    [req, SetProgress Initialized (uploadProgress st')]))))))"

subsection \<open>Chunk transfer\<close>

definition uploadChunk :: "env \<Rightarrow> state \<Rightarrow> nat \<Rightarrow> UploadChunk \<Rightarrow> outcome \<times> event list" where
  "uploadChunk env snap i c =
     (case (uploadUrl snap, uploadPreset snap, cloudName snap) of
        (Some url, Some preset, Some cloud) \<Rightarrow>
          if url = [] \<or> preset = [] \<or> cloud = [] then (Threw UploadNotInitialized, [])
          else
            (let req = Fetch (ChunkPost url (chunk c) preset (index c)
                                (length (chunks (uploadProgress snap))) (uploadId snap))
             in case chunkResponse env i of
                  Rejected m \<Rightarrow> (Threw (FetchRejected m), [req])
                | Response s b \<Rightarrow>
                    if \<not> ok s then (Threw (FailedToUploadChunk (index c)), [req])
                    else (case b of
                            BadJson m \<Rightarrow> (Threw (JsonRejected m), [req])
                          | _ \<Rightarrow> (Returned, [req])))
      | _ \<Rightarrow> (Threw UploadNotInitialized, []))"

text \<open>\<open>prev.chunks.map((c, index) => index === i ? { ...c, uploaded: b } : c)\<close>\<close>

definition markChunk :: "nat \<Rightarrow> bool \<Rightarrow> UploadChunk list \<Rightarrow> UploadChunk list" where
  "markChunk i b cs =
     map (\<lambda>(k, c). if k = i then c\<lparr>uploaded := b\<rparr> else c) (enumerate 0 cs)"

text \<open>
  The two updaters of \<open>uploadChunks\<close>, as functions of the previous progress: the one
  after a chunk is transferred, with the local counter \<open>uploadedBytes\<close> already increased,
  and the one after a chunk failed.
\<close>

definition elapsedSeconds :: "env \<Rightarrow> nat \<Rightarrow> jsnum" where
  "elapsedSeconds env i = js_div (js_int (dateNow env i - startTime env)) (js_int 1000)"

definition percentOf :: "int \<Rightarrow> int \<Rightarrow> jsnum" where
  "percentOf uploadedBytes t = js_mul (js_div (js_int uploadedBytes) (js_int t)) (js_int 100)"

definition chunkUploaded :: "env \<Rightarrow> state \<Rightarrow> nat \<Rightarrow> int \<Rightarrow> UploadProgress \<Rightarrow> UploadProgress" where
  "chunkUploaded env snap i uploadedBytes prev =
     (let elapsed = elapsedSeconds env i;
          speed' = js_div (js_int uploadedBytes) elapsed;
          remaining' = js_div (js_int (total' (uploadProgress snap) - uploadedBytes)) speed'
      in prev\<lparr>uploaded' := uploadedBytes,
              percentage := percentOf uploadedBytes (total' prev),
              speed := speed',
              remaining := remaining',
              chunks := markChunk i True (chunks prev)\<rparr>)"

definition chunkFailed :: "nat \<Rightarrow> UploadProgress \<Rightarrow> UploadProgress" where
  "chunkFailed i prev = prev\<lparr>chunks := markChunk i False (chunks prev)\<rparr>"

text \<open>
  The \<open>for\<close> loop of \<open>uploadChunks\<close>, from round \<open>i\<close> on: \<open>rest\<close> are the chunks of the
  closure not yet visited, \<open>uploadedBytes\<close> the local counter.
\<close>

fun uploadLoop ::
  "props \<Rightarrow> env \<Rightarrow> state \<Rightarrow> UploadChunk list \<Rightarrow> nat \<Rightarrow> int \<Rightarrow> state \<Rightarrow> event list
     \<Rightarrow> outcome \<times> state \<times> event list" where
  "uploadLoop p env snap [] i uploadedBytes st evs = (Returned, st, evs)"
| "uploadLoop p env snap (c # rest) i uploadedBytes st evs =
     (case uploadChunk env snap i c of
        (Returned, sent) \<Rightarrow>
          (let uploadedBytes' = uploadedBytes + chunk c;
               next = chunkUploaded env snap i uploadedBytes' (uploadProgress st)
           in uploadLoop p env snap rest (Suc i) uploadedBytes' (st\<lparr>uploadProgress := next\<rparr>)
                (evs @ sent @ [SetProgress (ChunkUploaded i) next]))
      | (Threw e, sent) \<Rightarrow>
          if enableResume p then
            (let next = chunkFailed i (uploadProgress st)
             in uploadLoop p env snap rest (Suc i) uploadedBytes (st\<lparr>uploadProgress := next\<rparr>)
                  (evs @ sent @ [SetProgress (ChunkFailed i) next]))
          else (Threw e, st, evs @ sent))"

definition uploadChunks :: "props \<Rightarrow> env \<Rightarrow> state \<Rightarrow> state \<Rightarrow> outcome \<times> state \<times> event list" where
  "uploadChunks p env snap st =
     (if chunks (uploadProgress snap) = [] then (Returned, st, [])
      else uploadLoop p env snap (chunks (uploadProgress snap)) 0 0 st [])"

subsection \<open>Completion and reset\<close>

definition resetForm :: "state \<Rightarrow> state" where
  "resetForm st =
     st\<lparr>videoFile := None, videoMetadata := None,
        title := [], description := [], position := 0, tags := [],
        difficulty := Beginner, isPreview := False, enableComments := True,
        enableDownloads := False, selectedQuality := ''auto'', selectedFormat := ''mp4'',
        enableWatermark := False, enableSubtitles := False, privacy := Public,
        uploadProgress := initialProgress,
        uploadId := None, uploadUrl := None, uploadPreset := None, cloudName := None\<rparr>"

text \<open>The \<open>catch\<close> block of \<open>completeUpload\<close>, and the statements after the callback.\<close>

definition completionCaught :: "state \<Rightarrow> event list \<Rightarrow> state \<times> event list" where
  "completionCaught st evs =
     (let st' = st\<lparr>uploadProgress :=
                   (uploadProgress st)\<lparr>status := Error, error := Some FailedToComplete\<rparr>\<rparr>
      in (st', evs @ [SetProgress CompletionFailed (uploadProgress st'),
                      Toast ToastError ''Upload Failed : Failed to complete video upload'']))"

definition completionFinish :: "state \<Rightarrow> event list \<Rightarrow> state \<times> event list" where
  "completionFinish st evs =
     ((resetForm st)\<lparr>open' := False\<rparr>, evs @ [SetProgress FormReset initialProgress])"

definition completeUpload :: "props \<Rightarrow> env \<Rightarrow> state \<Rightarrow> state \<Rightarrow> state \<times> event list" where
  "completeUpload p env snap st =
     (case (uploadId snap, cloudName snap) of
        (Some uid, Some cloud) \<Rightarrow>
          if uid = [] \<or> cloud = [] then (st, [])
          else
            (let req = Fetch (CompletePost uid (courseId p) (title snap) (description snap)
                         (position snap) (tags snap) (difficulty snap) (isPreview snap)
                         (enableComments snap) (enableDownloads snap) (selectedQuality snap)
                         (selectedFormat snap) (enableWatermark snap) (enableSubtitles snap)
                         (privacy snap));
                 st1 = st\<lparr>uploadProgress := (uploadProgress st)\<lparr>status := Completed\<rparr>\<rparr>;
                 evs1 = [req, SetProgress UploadCompleted (uploadProgress st1),
                         Toast ToastSuccess
                           ''Upload successful: Video uploaded and processed successfully'']
             in case completeResponse env of
                  Rejected m \<Rightarrow> completionCaught st [req]
                | Response s b \<Rightarrow>
                    if \<not> ok s then completionCaught st [req]
                    else
                      (case b of
                         BadJson m \<Rightarrow> completionCaught st [req]
                       | JsonNull \<Rightarrow>
                           (case onSuccess p of
                              None \<Rightarrow> completionFinish st1 evs1
                            | Some callback \<Rightarrow> completionCaught st1 evs1)
                       | Json url \<Rightarrow>
                           (case onSuccess p of
                              None \<Rightarrow> completionFinish st1 evs1
                            | Some callback \<Rightarrow>
                                if callback url
                                then completionFinish st1 (evs1 @ [OnSuccess url])
                                else completionCaught st1 (evs1 @ [OnSuccess url]))))
      | _ \<Rightarrow> (st, []))"

subsection \<open>The upload handler and the Cancel button\<close>

definition uploadCaught :: "exn \<Rightarrow> state \<Rightarrow> event list \<Rightarrow> state \<times> event list" where
  "uploadCaught e st evs =
     (let st' = st\<lparr>uploadProgress := (uploadProgress st)\<lparr>status := Error, error := Some e\<rparr>\<rparr>
      in (st', evs @ [SetProgress UploadFailed (uploadProgress st')]))"

definition handleUpload :: "props \<Rightarrow> env \<Rightarrow> state \<Rightarrow> state \<Rightarrow> (state \<times> event list) option" where
  "handleUpload p env snap st =
     (case videoFile snap of
        None \<Rightarrow> Some (st, [Toast ToastInfo
                  ''No file selected: Please select a video file to upload''])
      | Some f \<Rightarrow>
          if trim (title snap) = []
          then Some (st, [Toast ToastInfo ''Title required: Please enter a title for the video''])
          else
            (case initializeUpload p env snap st of
               None \<Rightarrow> None
             | Some (Threw e, st1, evs1) \<Rightarrow> Some (uploadCaught e st1 evs1)
             | Some (Returned, st1, evs1) \<Rightarrow>
                 (case uploadChunks p env snap st1 of
                    (Threw e, st2, evs2) \<Rightarrow> Some (uploadCaught e st2 (evs1 @ evs2))
                  | (Returned, st2, evs2) \<Rightarrow>
                      (case completeUpload p env snap st2 of
                         (st3, evs3) \<Rightarrow> Some (st3, evs1 @ evs2 @ evs3)))))"

text \<open>The Cancel button: \<open>onClick={() => setOpen(false)}\<close>.\<close>

definition cancel :: "state \<Rightarrow> state" where
  "cancel st = st\<lparr>open' := False\<rparr>"

text \<open>
  The guard of \<open>uploadChunk\<close>: the closure holds an upload URL, a preset and a cloud name.
  \<open>transferred env i\<close>: the request of round \<open>i\<close> is answered with a 2xx status and a JSON
  body, which is when \<open>uploadChunk\<close> returns.
\<close>

definition initialized :: "state \<Rightarrow> bool" where
  "initialized snap =
     (\<not> falsy (uploadUrl snap) \<and> \<not> falsy (uploadPreset snap) \<and> \<not> falsy (cloudName snap))"

definition transferred :: "env \<Rightarrow> nat \<Rightarrow> bool" where
  "transferred env i =
     (case chunkResponse env i of
        Rejected m \<Rightarrow> False
      | Response s b \<Rightarrow> ok s \<and> (case b of BadJson m \<Rightarrow> False | _ \<Rightarrow> True))"

subsection \<open>Reading the trace\<close>

fun chunkRequests :: "event list \<Rightarrow> int list" where
  "chunkRequests [] = []"
| "chunkRequests (Fetch (ChunkPost url b preset i n uid) # evs) = i # chunkRequests evs"
| "chunkRequests (e # evs) = chunkRequests evs"

fun isRequest :: "event \<Rightarrow> bool" where
  "isRequest (Fetch r) = True"
| "isRequest e = False"

fun isCompletePost :: "event \<Rightarrow> bool" where
  "isCompletePost (Fetch (CompletePost uid cid t d pos tg df pv ec ed q fm wm sb pr)) = True"
| "isCompletePost e = False"

fun onSuccessCalls :: "event list \<Rightarrow> string option list" where
  "onSuccessCalls [] = []"
| "onSuccessCalls (OnSuccess url # evs) = url # onSuccessCalls evs"
| "onSuccessCalls (e # evs) = onSuccessCalls evs"

text \<open>The progress values stored after a transferred chunk, with the round that stored
  them, and their percentages.\<close>

fun successUpdates :: "event list \<Rightarrow> (nat \<times> UploadProgress) list" where
  "successUpdates [] = []"
| "successUpdates (SetProgress (ChunkUploaded i) pr # evs) = (i, pr) # successUpdates evs"
| "successUpdates (e # evs) = successUpdates evs"

definition successPercentages :: "event list \<Rightarrow> jsnum list" where
  "successPercentages evs = map (\<lambda>(i, pr). percentage pr) (successUpdates evs)"




fun stored :: "event list \<Rightarrow> (update \<times> UploadProgress) list" where
  "stored [] = []"
| "stored (SetProgress u pr # evs) = (u, pr) # stored evs"
| "stored (e # evs) = stored evs"

section \<open>Sample values\<close>

text \<open>Concrete properties, files and answers of the environment, used to instantiate the
  theorems below.\<close>

definition lecture :: File where
  "lecture = \<lparr>f_name = ''lecture.mp4'', f_size = 12 * 1024 * 1024, f_type = ''video/mp4''\<rparr>"

definition session :: initData where
  "session = \<lparr>d_uploadId = Some ''upload-1'', d_uploadUrl = Some ''https://upload.example/video'',
     d_uploadPreset = Some ''preset'', d_cloudName = Some ''cloud''\<rparr>"

definition defaultProps :: props where
  "defaultProps = \<lparr>courseId = ''course-1'', onSuccess = Some (\<lambda>url. True),
     maxFileSize = DEFAULT_MAX_FILE_SIZE, allowedFormats = SUPPORTED_FORMATS,
     chunkSize = DEFAULT_CHUNK_SIZE, enableResume = True\<rparr>"

definition okEnv :: env where
  "okEnv = \<lparr>initResponse = Response 200 (Json session),
     chunkResponse = (\<lambda>i. Response 200 (Json ())),
     completeResponse = Response 200 (Json (Some ''https://video.example/1'')),
     startTime = 0, dateNow = (\<lambda>i. 1000 * (int i + 1)),
     extracted = Some (Fin 60, 1280, 720, None)\<rparr>"

text \<open>A file of ten bytes cut into chunks of four, before and after its session is
  initialised.\<close>

definition clip :: File where
  "clip = \<lparr>f_name = ''clip.mp4'', f_size = 10, f_type = ''video/mp4''\<rparr>"

definition clipProps :: props where
  "clipProps = defaultProps\<lparr>chunkSize := 4\<rparr>"

definition clipChunks :: "UploadChunk list" where
  "clipChunks =
     [\<lparr>chunk = 4, index = 0, start = 0, end' = 4, uploaded = False\<rparr>,
      \<lparr>chunk = 4, index = 1, start = 4, end' = 8, uploaded = False\<rparr>,
      \<lparr>chunk = 2, index = 2, start = 8, end' = 10, uploaded = False\<rparr>]"

definition strictProps :: props where
  "strictProps = clipProps\<lparr>enableResume := False\<rparr>"

definition draftState :: state where
  "draftState = initialState\<lparr>open' := True, videoFile := Some clip, title := ''clip''\<rparr>"

definition clipState :: state where
  "clipState =
     draftState\<lparr>uploadId := d_uploadId session, uploadUrl := d_uploadUrl session,
                uploadPreset := d_uploadPreset session, cloudName := d_cloudName session,
                uploadProgress := initialProgress
                  \<lparr>total' := 10, chunks := clipChunks, status := Uploading\<rparr>\<rparr>"




text \<open>An environment whose second chunk request is answered with status 500, and one whose
  completion request is.\<close>

definition failingEnv :: env where
  "failingEnv = okEnv\<lparr>chunkResponse := (\<lambda>i. if i = 1 then Response 500 JsonNull
                                              else Response 200 (Json ()))\<rparr>"

definition refusingEnv :: env where
  "refusingEnv = okEnv\<lparr>completeResponse := Response 500 JsonNull\<rparr>"

section \<open>Chunk partitioning\<close>

lemma numChunks_less: 
  assumes "0 < cs" shows "k < numChunks fsize cs \<longleftrightarrow> int k * cs < fsize"
proof -
  have "k < numChunks fsize cs \<longleftrightarrow> int k < \<lceil>real_of_int fsize / real_of_int cs\<rceil>"
    unfolding numChunks_def by (simp add: zless_nat_eq_int_zless)
  also have "\<dots> \<longleftrightarrow> real_of_int (int k) < real_of_int fsize / real_of_int cs"
    by (simp only: less_ceiling_iff)
  also have "\<dots> \<longleftrightarrow> real_of_int (int k) * real_of_int cs < real_of_int fsize"
    using assms by (simp add: pos_less_divide_eq)
  also have "\<dots> \<longleftrightarrow> int k * cs < fsize"
    by (metis of_int_less_iff of_int_mult)
  finally show ?thesis .
qed

lemma createChunksLoop_closed:
  assumes "0 < cs"
  shows "createChunksLoop fsize cs (min (int k * cs) fsize) (int k) acc
       = Some (acc @ map (chunkAt fsize cs) [k..<numChunks fsize cs])"
proof (induction "numChunks fsize cs - k" arbitrary: k acc)
  case 0
  then have "\<not> k < numChunks fsize cs" by simp
  then have "\<not> int k * cs < fsize" using numChunks_less[OF assms] by simp
  then have "\<not> min (int k * cs) fsize < fsize" by simp
  moreover have "[k..<numChunks fsize cs] = []" using \<open>\<not> k < numChunks fsize cs\<close> by simp
  ultimately show ?case by (subst createChunksLoop.simps) simp
next
  case (Suc d)
  then have lt: "k < numChunks fsize cs" by simp
  then have ks: "int k * cs < fsize" using numChunks_less[OF assms] by simp
  have m: "min (int k * cs) fsize = int k * cs" using ks by simp
  have e: "min (int k * cs + cs) fsize = min (int (Suc k) * cs) fsize"
    by (simp add: algebra_simps)
  have d: "d = numChunks fsize cs - Suc k" using Suc(2) by simp
  have "createChunksLoop fsize cs (int k * cs) (int k) acc
        = createChunksLoop fsize cs (min (int (Suc k) * cs) fsize) (int (Suc k))
            (acc @ [chunkAt fsize cs k])"
    using ks by (subst createChunksLoop.simps) (simp add: Let_def chunkAt_def algebra_simps)
  also have "\<dots> = Some ((acc @ [chunkAt fsize cs k]) @ map (chunkAt fsize cs) [Suc k..<numChunks fsize cs])"
    by (rule Suc(1)[OF d])
  also have "\<dots> = Some (acc @ map (chunkAt fsize cs) [k..<numChunks fsize cs])"
    using lt by (simp add: upt_conv_Cons)
  finally show ?case using m by simp
qed

lemma createChunks_closed:
  assumes "0 < cs"
  shows "createChunks fsize cs = Some (map (chunkAt fsize cs) [0..<numChunks fsize cs])"
proof (cases "0 < fsize")
  case True
  then have "min (int 0 * cs) fsize = 0" by simp
  with createChunksLoop_closed[OF assms, where k = 0 and acc = "[]" and fsize = fsize] show ?thesis
    by (simp add: createChunks_def)
next
  case False
  then have "numChunks fsize cs = 0"
    using numChunks_less[OF assms, where k = 0 and fsize = fsize] by simp
  moreover have "createChunksLoop fsize cs 0 0 [] = Some []"
    using False by (subst createChunksLoop.simps) simp
  ultimately show ?thesis by (simp add: createChunks_def)
qed

lemma slice_inside: "0 \<le> s \<Longrightarrow> s \<le> e \<Longrightarrow> e \<le> fsize \<Longrightarrow> slice fsize s e = e - s"
  by (simp add: slice_def Let_def)

lemma chunkAt_fields:
  assumes "0 < cs" "k < numChunks fsize cs"
  shows "index (chunkAt fsize cs k) = int k"
    and "start (chunkAt fsize cs k) = int k * cs"
    and "end' (chunkAt fsize cs k) = min ((int k + 1) * cs) fsize"
    and "start (chunkAt fsize cs k) < end' (chunkAt fsize cs k)"
    and "chunk (chunkAt fsize cs k) = end' (chunkAt fsize cs k) - start (chunkAt fsize cs k)"
    and "\<not> uploaded (chunkAt fsize cs k)"
proof -
  have ks: "int k * cs < fsize" using numChunks_less[OF assms(1)] assms(2) by simp
  have nn: "0 \<le> int k * cs" using assms(1) by simp
  show "index (chunkAt fsize cs k) = int k" "start (chunkAt fsize cs k) = int k * cs"
    "end' (chunkAt fsize cs k) = min ((int k + 1) * cs) fsize" "\<not> uploaded (chunkAt fsize cs k)"
    by (simp_all add: chunkAt_def)
  show lt: "start (chunkAt fsize cs k) < end' (chunkAt fsize cs k)"
    using ks assms(1) by (simp add: chunkAt_def algebra_simps)
  show "chunk (chunkAt fsize cs k) = end' (chunkAt fsize cs k) - start (chunkAt fsize cs k)"
    using lt nn by (simp add: chunkAt_def slice_inside)
qed

lemma chunkAt_full:
  assumes "0 < cs" "Suc k < numChunks fsize cs"
  shows "end' (chunkAt fsize cs k) = (int k + 1) * cs"
  using numChunks_less[OF assms(1), where k = "Suc k" and fsize = fsize] assms(2)
  by (simp add: chunkAt_def algebra_simps)

lemma chunkAt_last:
  assumes "0 < cs" "numChunks fsize cs = Suc k"
  shows "end' (chunkAt fsize cs k) = fsize"
  using numChunks_less[OF assms(1), where k = "Suc k" and fsize = fsize] assms(2)
  by (simp add: chunkAt_def algebra_simps)

lemma chunkAt_cover:
  assumes "0 < cs" "0 \<le> b" "b < fsize"
  shows "\<exists>!i. i < numChunks fsize cs \<and> start (chunkAt fsize cs i) \<le> b \<and> b < end' (chunkAt fsize cs i)"
proof -
  have iff: "start (chunkAt fsize cs i) \<le> b \<and> b < end' (chunkAt fsize cs i) \<longleftrightarrow> b div cs = int i" for i
  proof -
    have "start (chunkAt fsize cs i) \<le> b \<and> b < end' (chunkAt fsize cs i)
          \<longleftrightarrow> int i * cs \<le> b \<and> b < (int i + 1) * cs"
      using assms(3) by (simp add: chunkAt_def)
    also have "\<dots> \<longleftrightarrow> b div cs = int i"
    proof
      assume a: "int i * cs \<le> b \<and> b < (int i + 1) * cs"
      show "b div cs = int i"
        by (rule int_div_pos_eq[where r = "b - int i * cs"]) (use a in \<open>simp_all add: algebra_simps\<close>)
    next
      assume e: "b div cs = int i"
      have "b = cs * (b div cs) + b mod cs" by simp
      moreover have "0 \<le> b mod cs" "b mod cs < cs" using assms(1) by simp_all
      ultimately have "cs * (b div cs) \<le> b" "b < cs * (b div cs) + cs" by linarith+
      then show "int i * cs \<le> b \<and> b < (int i + 1) * cs"
        using e by (simp add: algebra_simps)
    qed
    finally show ?thesis .
  qed
  have nn: "0 \<le> b div cs" using assms(1,2) by (simp add: pos_imp_zdiv_nonneg_iff)
  show ?thesis
  proof (rule ex1I[where a = "nat (b div cs)"])
    have i: "b div cs = int (nat (b div cs))" using nn by simp
    then have "int (nat (b div cs)) * cs \<le> b" using iff[of "nat (b div cs)"] by (simp add: chunkAt_def)
    then have "int (nat (b div cs)) * cs < fsize" using assms(3) by simp
    then have "nat (b div cs) < numChunks fsize cs" using numChunks_less[OF assms(1)] by simp
    then show "nat (b div cs) < numChunks fsize cs \<and> start (chunkAt fsize cs (nat (b div cs))) \<le> b
        \<and> b < end' (chunkAt fsize cs (nat (b div cs)))"
      using iff[of "nat (b div cs)"] i by simp
  next
    fix i assume "i < numChunks fsize cs \<and> start (chunkAt fsize cs i) \<le> b \<and> b < end' (chunkAt fsize cs i)"
    then show "i = nat (b div cs)" using iff[of i] by simp
  qed
qed


lemma createChunks_props:
  assumes fs: "0 < fsize" and cs: "0 < cs"
  shows "\<exists>xs. createChunks fsize cs = Some xs \<and>
     (let n = length xs in
        n = nat \<lceil>real_of_int fsize / real_of_int cs\<rceil>
      \<and> (\<forall>i<n. index (xs ! i) = int i)
      \<and> (\<forall>i<n. start (xs ! i) < end' (xs ! i) \<and> chunk (xs ! i) = end' (xs ! i) - start (xs ! i))
      \<and> start (xs ! 0) = 0 \<and> end' (xs ! (n - 1)) = fsize
      \<and> (\<forall>i. Suc i < n \<longrightarrow> start (xs ! Suc i) = end' (xs ! i))
      \<and> (\<forall>b. 0 \<le> b \<and> b < fsize \<longrightarrow> (\<exists>!i. i < n \<and> start (xs ! i) \<le> b \<and> b < end' (xs ! i)))
      \<and> (\<forall>i. Suc i < n \<longrightarrow> end' (xs ! i) - start (xs ! i) = cs)
      \<and> end' (xs ! (n - 1)) - start (xs ! (n - 1)) = fsize - cs * (int n - 1))"
proof -
  let ?n = "numChunks fsize cs"
  let ?xs = "map (chunkAt fsize cs) [0..<?n]"
  have len: "length ?xs = ?n" by simp
  have nth: "?xs ! i = chunkAt fsize cs i" if "i < ?n" for i using that by simp
  have pos: "0 < ?n" using numChunks_less[OF cs, where k = 0 and fsize = fsize] fs by simp
  then obtain m where m: "?n = Suc m" by (cases ?n) auto
  have c1: "?n = nat \<lceil>real_of_int fsize / real_of_int cs\<rceil>" by (simp add: numChunks_def)
  have c2: "\<forall>i<?n. index (?xs ! i) = int i" by (simp add: chunkAt_def)
  have c3: "\<forall>i<?n. start (?xs ! i) < end' (?xs ! i) \<and> chunk (?xs ! i) = end' (?xs ! i) - start (?xs ! i)"
    using chunkAt_fields(4,5)[OF cs] nth by simp
  have c4: "start (?xs ! 0) = 0" using pos by (simp add: chunkAt_def)
  have lm: "m < ?n" using m by simp
  have last: "?xs ! (?n - 1) = chunkAt fsize cs m" using nth[OF lm] m by simp
  have c5: "end' (?xs ! (?n - 1)) = fsize" using chunkAt_last[OF cs m] last by simp
  have c6: "\<forall>i. Suc i < ?n \<longrightarrow> start (?xs ! Suc i) = end' (?xs ! i)"
  proof (intro allI impI)
    fix i assume a: "Suc i < ?n"
    then have "start (?xs ! Suc i) = (int i + 1) * cs" by (simp add: chunkAt_def)
    moreover have "end' (?xs ! i) = (int i + 1) * cs" using chunkAt_full[OF cs a] a by simp
    ultimately show "start (?xs ! Suc i) = end' (?xs ! i)" by simp
  qed
  have c7: "\<forall>b. 0 \<le> b \<and> b < fsize \<longrightarrow> (\<exists>!i. i < ?n \<and> start (?xs ! i) \<le> b \<and> b < end' (?xs ! i))"
  proof (intro allI impI)
    fix b assume b: "0 \<le> b \<and> b < fsize"
    have "(i < ?n \<and> start (?xs ! i) \<le> b \<and> b < end' (?xs ! i))
        = (i < ?n \<and> start (chunkAt fsize cs i) \<le> b \<and> b < end' (chunkAt fsize cs i))" for i
      using nth by auto
    then show "\<exists>!i. i < ?n \<and> start (?xs ! i) \<le> b \<and> b < end' (?xs ! i)"
      using chunkAt_cover[OF cs, of b fsize] b by simp
  qed
  have c8: "\<forall>i. Suc i < ?n \<longrightarrow> end' (?xs ! i) - start (?xs ! i) = cs"
  proof (intro allI impI)
    fix i assume a: "Suc i < ?n"
    have "end' (?xs ! i) = (int i + 1) * cs" using chunkAt_full[OF cs a] a by simp
    moreover have "start (?xs ! i) = int i * cs" using a by (simp add: chunkAt_def)
    ultimately show "end' (?xs ! i) - start (?xs ! i) = cs" by (simp add: algebra_simps)
  qed
  have "start (chunkAt fsize cs m) = int m * cs" by (simp add: chunkAt_def)
  then have c9: "end' (?xs ! (?n - 1)) - start (?xs ! (?n - 1)) = fsize - cs * (int ?n - 1)"
    using c5 last m by (simp add: algebra_simps)
  have "createChunks fsize cs = Some ?xs" by (rule createChunks_closed[OF cs])
  moreover have "(let n = length ?xs in
        n = nat \<lceil>real_of_int fsize / real_of_int cs\<rceil>
      \<and> (\<forall>i<n. index (?xs ! i) = int i)
      \<and> (\<forall>i<n. start (?xs ! i) < end' (?xs ! i) \<and> chunk (?xs ! i) = end' (?xs ! i) - start (?xs ! i))
      \<and> start (?xs ! 0) = 0 \<and> end' (?xs ! (n - 1)) = fsize
      \<and> (\<forall>i. Suc i < n \<longrightarrow> start (?xs ! Suc i) = end' (?xs ! i))
      \<and> (\<forall>b. 0 \<le> b \<and> b < fsize \<longrightarrow> (\<exists>!i. i < n \<and> start (?xs ! i) \<le> b \<and> b < end' (?xs ! i)))
      \<and> (\<forall>i. Suc i < n \<longrightarrow> end' (?xs ! i) - start (?xs ! i) = cs)
      \<and> end' (?xs ! (n - 1)) - start (?xs ! (n - 1)) = fsize - cs * (int n - 1))"
    unfolding Let_def len using c1 c2 c3 c4 c5 c6 c7 c8 c9 by blast
  ultimately show ?thesis by blast
qed

lemma initializeUpload_ok:
  assumes "videoFile snap = Some f" "initResponse env = Response s (Json d)" "ok s"
      and "createChunks (f_size f) (chunkSize p) = Some xs"
  shows "initializeUpload p env snap st =
     Some (Returned,
           st\<lparr>uploadId := d_uploadId d, uploadUrl := d_uploadUrl d,
              uploadPreset := d_uploadPreset d, cloudName := d_cloudName d,
              uploadProgress := (uploadProgress st)\<lparr>total' := f_size f, chunks := xs, status := Uploading\<rparr>\<rparr>,
           [Fetch (InitPost (f_name f) (f_size f) (courseId p)),
            SetProgress Initialized ((uploadProgress st)\<lparr>total' := f_size f, chunks := xs, status := Uploading\<rparr>)])"
  using assms by (simp add: initializeUpload_def Let_def)

text \<open>
  C1. When a file of positive size is selected, the chunk size is positive and the
  session request succeeds, \<open>initializeUpload\<close> returns and stores a chunk list with
  \<open>ceil(fileSize / chunkSize)\<close> chunks, where chunk \<open>i\<close> has index \<open>i\<close>, every range
  \<open>[start, end)\<close> is non-empty and is the size of its blob, the first range starts at 0,
  the last ends at the file size, each range starts where the one before ends, every
  byte of \<open>[0, fileSize)\<close> lies in exactly one range, every chunk but the last has length
  \<open>chunkSize\<close> and the last has length \<open>fileSize - chunkSize * (count - 1)\<close>. The instance
  below is the file of 12 MiB with chunks of 5 MiB: three chunks of 5, 5 and 2 MiB.
\<close>

theorem C1_chunk_partitioning:
  assumes "videoFile snap = Some f" and "0 < f_size f" and "0 < chunkSize p"
      and "initResponse env = Response s (Json d)" and "ok s"
  shows "\<exists>st' evs. initializeUpload p env snap st = Some (Returned, st', evs) \<and>
     (let xs = chunks (uploadProgress st'); n = length xs in
        n = nat \<lceil>real_of_int (f_size f) / real_of_int (chunkSize p)\<rceil>
      \<and> (\<forall>i<n. index (xs ! i) = int i)
      \<and> (\<forall>i<n. start (xs ! i) < end' (xs ! i) \<and> chunk (xs ! i) = end' (xs ! i) - start (xs ! i))
      \<and> start (xs ! 0) = 0 \<and> end' (xs ! (n - 1)) = f_size f
      \<and> (\<forall>i. Suc i < n \<longrightarrow> start (xs ! Suc i) = end' (xs ! i))
      \<and> (\<forall>b. 0 \<le> b \<and> b < f_size f \<longrightarrow> (\<exists>!i. i < n \<and> start (xs ! i) \<le> b \<and> b < end' (xs ! i)))
      \<and> (\<forall>i. Suc i < n \<longrightarrow> end' (xs ! i) - start (xs ! i) = chunkSize p)
      \<and> end' (xs ! (n - 1)) - start (xs ! (n - 1)) = f_size f - chunkSize p * (int n - 1))"
proof -
  obtain xs where xs: "createChunks (f_size f) (chunkSize p) = Some xs"
    and props: "(let n = length xs in
        n = nat \<lceil>real_of_int (f_size f) / real_of_int (chunkSize p)\<rceil>
      \<and> (\<forall>i<n. index (xs ! i) = int i)
      \<and> (\<forall>i<n. start (xs ! i) < end' (xs ! i) \<and> chunk (xs ! i) = end' (xs ! i) - start (xs ! i))
      \<and> start (xs ! 0) = 0 \<and> end' (xs ! (n - 1)) = f_size f
      \<and> (\<forall>i. Suc i < n \<longrightarrow> start (xs ! Suc i) = end' (xs ! i))
      \<and> (\<forall>b. 0 \<le> b \<and> b < f_size f \<longrightarrow> (\<exists>!i. i < n \<and> start (xs ! i) \<le> b \<and> b < end' (xs ! i)))
      \<and> (\<forall>i. Suc i < n \<longrightarrow> end' (xs ! i) - start (xs ! i) = chunkSize p)
      \<and> end' (xs ! (n - 1)) - start (xs ! (n - 1)) = f_size f - chunkSize p * (int n - 1))"
    using createChunks_props[OF assms(2,3)] by blast
  let ?pr = "(uploadProgress st)\<lparr>total' := f_size f, chunks := xs, status := Uploading\<rparr>"
  let ?st' = "st\<lparr>uploadId := d_uploadId d, uploadUrl := d_uploadUrl d,
              uploadPreset := d_uploadPreset d, cloudName := d_cloudName d,
              uploadProgress := ?pr\<rparr>"
  have ch: "chunks (uploadProgress ?st') = xs" by simp
  show ?thesis
    apply (rule exI[of _ ?st'])
    apply (rule exI)
    apply (rule conjI)
     apply (rule initializeUpload_ok[OF assms(1,4,5) xs])
    using props unfolding Let_def ch by assumption
qed


theorem C1_chunk_partitioning_witness:
  "\<exists>st' evs. initializeUpload defaultProps okEnv (initialState\<lparr>videoFile := Some lecture\<rparr>) initialState
       = Some (Returned, st', evs)
     \<and> map (\<lambda>c. end' c - start c) (chunks (uploadProgress st'))
       = [5 * 1024 * 1024, 5 * 1024 * 1024, 2 * 1024 * 1024]
     \<and> map chunk (chunks (uploadProgress st')) = [5 * 1024 * 1024, 5 * 1024 * 1024, 2 * 1024 * 1024]
     \<and> map index (chunks (uploadProgress st')) = [0, 1, 2]"
proof -
  have h1: "videoFile (initialState\<lparr>videoFile := Some lecture\<rparr>) = Some lecture" by simp
  have h2: "0 < f_size lecture" by (simp add: lecture_def)
  have h3: "0 < chunkSize defaultProps" by (simp add: defaultProps_def DEFAULT_CHUNK_SIZE_def)
  have h4: "initResponse okEnv = Response 200 (Json session)" by (simp add: okEnv_def)
  have h5: "ok 200" by (simp add: ok_def)
  have n3: "nat \<lceil>real_of_int (f_size lecture) / real_of_int (chunkSize defaultProps)\<rceil> = 3"
    by (simp add: lecture_def defaultProps_def DEFAULT_CHUNK_SIZE_def)
  from C1_chunk_partitioning[OF h1 h2 h3 h4 h5, of initialState]
  obtain st' evs where run: "initializeUpload defaultProps okEnv (initialState\<lparr>videoFile := Some lecture\<rparr>) initialState
       = Some (Returned, st', evs)"
    and len: "length (chunks (uploadProgress st')) = 3"
    and idx: "\<forall>i<3. index (chunks (uploadProgress st') ! i) = int i"
    and blob: "\<forall>i<3. chunk (chunks (uploadProgress st') ! i)
                 = end' (chunks (uploadProgress st') ! i) - start (chunks (uploadProgress st') ! i)"
    and full: "\<forall>i. Suc i < 3 \<longrightarrow> end' (chunks (uploadProgress st') ! i) - start (chunks (uploadProgress st') ! i)
                 = chunkSize defaultProps"
    and lst: "end' (chunks (uploadProgress st') ! 2) - start (chunks (uploadProgress st') ! 2)
                 = f_size lecture - chunkSize defaultProps * 2"
    unfolding Let_def n3 by auto
  let ?xs = "chunks (uploadProgress st')"
  have xs: "?xs = [?xs ! 0, ?xs ! 1, ?xs ! 2]"
    using len by (intro nth_equalityI) (auto simp: less_Suc_eq numeral_3_eq_3 numeral_2_eq_2)
  have cs5: "chunkSize defaultProps = 5 * 1024 * 1024"
    by (simp add: defaultProps_def DEFAULT_CHUNK_SIZE_def)
  have s0: "end' (?xs ! 0) - start (?xs ! 0) = 5 * 1024 * 1024"
    using full[rule_format, of 0] unfolding cs5 by simp
  have "Suc 1 < (3::nat)" by simp
  from full[rule_format, OF this]
  have s1: "end' (?xs ! 1) - start (?xs ! 1) = 5 * 1024 * 1024"
    unfolding cs5 by simp
  have s2: "end' (?xs ! 2) - start (?xs ! 2) = 2 * 1024 * 1024"
    using lst by (simp add: defaultProps_def DEFAULT_CHUNK_SIZE_def lecture_def)
  have a: "map (\<lambda>c. end' c - start c) ?xs = [5 * 1024 * 1024, 5 * 1024 * 1024, 2 * 1024 * 1024]"
    by (subst xs) (simp only: list.map s0 s1 s2)
  have b0: "chunk (?xs ! 0) = 5 * 1024 * 1024" using blob[rule_format, of 0] s0 by simp
  have b1: "chunk (?xs ! 1) = 5 * 1024 * 1024" using blob[rule_format, of 1] s1 by simp
  have b2: "chunk (?xs ! 2) = 2 * 1024 * 1024" using blob[rule_format, of 2] s2 by simp
  have b: "map chunk ?xs = [5 * 1024 * 1024, 5 * 1024 * 1024, 2 * 1024 * 1024]"
    by (subst xs) (simp only: list.map b0 b1 b2)
  have i0: "index (?xs ! 0) = 0" using idx[rule_format, of 0] by simp
  have i1: "index (?xs ! 1) = 1" using idx[rule_format, of 1] by simp
  have i2: "index (?xs ! 2) = 2" using idx[rule_format, of 2] by simp
  have c: "map index ?xs = [0, 1, 2]"
    by (subst xs) (simp only: list.map i0 i1 i2)
  show ?thesis
    by (rule exI[of _ st'], rule exI[of _ evs]) (intro conjI run a b c)
qed

section \<open>File validation\<close>

lemma extension_lecture: "extension ''lecture.mp4'' = Some ''mp4''"
  by (simp add: extension_def pop_def toLowerCase_def toLowerCaseChar_def)

lemma extension_lowercased: "extension ''Lecture.final.MP4'' = Some ''mp4''"
  by code_simp

text \<open>
  C4. A file passes \<open>validateFile\<close> when its size is at most \<open>maxFileSize\<close>, its
  lowercased extension is not empty and is one of the allowed formats, and its declared
  media type starts with \<open>video/\<close>. Size and extension alone do not suffice: a file
  named \<open>lecture.mp4\<close> of 1 KiB declared as \<open>application/octet-stream\<close> is rejected.
\<close>

theorem C4_validator_pass:
  assumes "f_size f \<le> maxFileSize p"
      and "extension (f_name f) = Some ext" and "ext \<noteq> []" and "ext \<in> set (allowedFormats p)"
      and "startsWith (f_type f) ''video/''"
  shows "validateFile p f = \<lparr>valid = True, reason = None\<rparr>"
  using assms by (simp add: validateFile_def falsy_def Let_def)

theorem C4_validator_pass_witness:
  "f_size lecture \<le> maxFileSize defaultProps \<and> extension (f_name lecture) = Some ''mp4''
   \<and> ''mp4'' \<in> set (allowedFormats defaultProps) \<and> startsWith (f_type lecture) ''video/''
   \<and> validateFile defaultProps lecture = \<lparr>valid = True, reason = None\<rparr>"
proof -
  have h1: "f_size lecture \<le> maxFileSize defaultProps"
    by (simp add: lecture_def defaultProps_def DEFAULT_MAX_FILE_SIZE_def)
  have h2: "extension (f_name lecture) = Some ''mp4''"
    by (simp add: lecture_def extension_def pop_def toLowerCase_def toLowerCaseChar_def)
  have h3: "''mp4'' \<noteq> []" by simp
  have h4: "''mp4'' \<in> set (allowedFormats defaultProps)"
    by (simp add: defaultProps_def SUPPORTED_FORMATS_def)
  have h5: "startsWith (f_type lecture) ''video/''"
    by (simp add: lecture_def startsWith_def)
  show ?thesis using C4_validator_pass[OF h1 h2 h3 h4 h5] h1 h2 h4 h5 by simp
qed

theorem C4_validator_pass_counterexample:
  "f_size \<lparr>f_name = ''lecture.mp4'', f_size = 1024, f_type = ''application/octet-stream''\<rparr>
      \<le> maxFileSize defaultProps
   \<and> extension (f_name \<lparr>f_name = ''lecture.mp4'', f_size = 1024, f_type = ''application/octet-stream''\<rparr>)
      = Some ''mp4''
   \<and> ''mp4'' \<in> set (allowedFormats defaultProps)
   \<and> \<not> valid (validateFile defaultProps
        \<lparr>f_name = ''lecture.mp4'', f_size = 1024, f_type = ''application/octet-stream''\<rparr>)"
  by (simp add: validateFile_def falsy_def Let_def defaultProps_def DEFAULT_MAX_FILE_SIZE_def
      SUPPORTED_FORMATS_def extension_def pop_def toLowerCase_def toLowerCaseChar_def startsWith_def)

section \<open>Validation before the network\<close>

lemma handleFileSelect_no_request:
  "\<forall>e \<in> set (snd (handleFileSelect p env selected st)). \<not> isRequest e"
  by (auto simp: handleFileSelect_def Let_def split: option.splits)

text \<open>The file held by the state is always one that passed validation.\<close>

lemma handleFileSelect_keeps_valid:
  assumes "\<forall>g. videoFile st = Some g \<longrightarrow> valid (validateFile p g)"
  shows "\<forall>g. videoFile (fst (handleFileSelect p env selected st)) = Some g
            \<longrightarrow> valid (validateFile p g)"
  using assms by (auto simp: handleFileSelect_def Let_def split: option.splits)

lemma handleUpload_without_file:
  "videoFile snap = None \<Longrightarrow> handleUpload p env snap st
     = Some (st, [Toast ToastInfo ''No file selected: Please select a video file to upload''])"
  by (simp add: handleUpload_def)

text \<open>
  C8. Selecting a file that fails validation shows the error toast and does nothing else:
  the state is returned as it was, so the file is never stored as \<open>videoFile\<close>, which is
  the only file the upload handler reads, and the trace of the selection holds no
  request. The instance is a file \<open>notes.txt\<close>.
\<close>

theorem C8_validation_precedes_network:
  assumes "\<not> valid (validateFile p f)"
  shows "handleFileSelect p env (Some f) st = (st, [Toast ToastError ''Invalid file''])
       \<and> (\<forall>e \<in> set (snd (handleFileSelect p env (Some f) st)). \<not> isRequest e)
       \<and> videoFile (fst (handleFileSelect p env (Some f) st)) = videoFile st"
  using assms by (simp add: handleFileSelect_def)

theorem C8_validation_precedes_network_witness:
  "\<not> valid (validateFile defaultProps \<lparr>f_name = ''notes.txt'', f_size = 2048, f_type = ''text/plain''\<rparr>)
   \<and> handleFileSelect defaultProps okEnv
        (Some \<lparr>f_name = ''notes.txt'', f_size = 2048, f_type = ''text/plain''\<rparr>) initialState
       = (initialState, [Toast ToastError ''Invalid file''])
   \<and> videoFile (fst (handleFileSelect defaultProps okEnv
        (Some \<lparr>f_name = ''notes.txt'', f_size = 2048, f_type = ''text/plain''\<rparr>) initialState)) = None"
proof -
  have h: "\<not> valid (validateFile defaultProps
              \<lparr>f_name = ''notes.txt'', f_size = 2048, f_type = ''text/plain''\<rparr>)"
    by (simp add: validateFile_def falsy_def Let_def defaultProps_def DEFAULT_MAX_FILE_SIZE_def
        SUPPORTED_FORMATS_def extension_def pop_def toLowerCase_def toLowerCaseChar_def)
  have "videoFile initialState = None" by (simp add: initialState_def)
  then show ?thesis
    using C8_validation_precedes_network[OF h, of okEnv initialState] h by simp
qed

section \<open>Reset of the form\<close>

lemma resetForm_defaults: "resetForm st = initialState\<lparr>open' := open' st\<rparr>"
  by (simp add: resetForm_def initialState_def)

lemma completionFinish_state: "fst (completionFinish st evs) = initialState"
  by (simp add: completionFinish_def resetForm_defaults initialState_def)

text \<open>
  C9. When the completion request succeeds and the callback, if there is one, returns,
  \<open>completeUpload\<close> leaves the component in its initial state: empty title and
  description, position 0, no tags, difficulty beginner, privacy public, quality auto,
  idle progress, no file and no session, with the dialog closed. The Cancel button only
  closes the dialog: every other cell keeps its value.
\<close>

theorem C9_reset_on_completion:
  assumes "uploadId snap = Some uid" and "uid \<noteq> []"
      and "cloudName snap = Some cloud" and "cloud \<noteq> []"
      and "completeResponse env = Response s (Json url)" and "ok s"
      and "\<forall>callback. onSuccess p = Some callback \<longrightarrow> callback url"
  shows "fst (completeUpload p env snap st) = initialState
       \<and> title (fst (completeUpload p env snap st)) = []
       \<and> description (fst (completeUpload p env snap st)) = []
       \<and> position (fst (completeUpload p env snap st)) = 0
       \<and> tags (fst (completeUpload p env snap st)) = []
       \<and> difficulty (fst (completeUpload p env snap st)) = Beginner
       \<and> privacy (fst (completeUpload p env snap st)) = Public
       \<and> selectedQuality (fst (completeUpload p env snap st)) = ''auto''
       \<and> uploadProgress (fst (completeUpload p env snap st)) = initialProgress
       \<and> videoFile (fst (completeUpload p env snap st)) = None
       \<and> uploadId (fst (completeUpload p env snap st)) = None
       \<and> cancel st = st\<lparr>open' := False\<rparr>"
proof -
  have "fst (completeUpload p env snap st) = initialState"
    using assms
    by (cases "onSuccess p") (simp_all add: completeUpload_def Let_def completionFinish_state)
  then show ?thesis by (simp add: initialState_def cancel_def)
qed


theorem C9_reset_on_completion_witness:
  "uploadId clipState = Some ''upload-1'' \<and> cloudName clipState = Some ''cloud''
   \<and> completeResponse okEnv = Response 200 (Json (Some ''https://video.example/1'')) \<and> ok 200
   \<and> fst (completeUpload defaultProps okEnv clipState clipState) = initialState
   \<and> title clipState = ''clip''
   \<and> title (fst (completeUpload defaultProps okEnv clipState clipState)) = []"
proof -
  have h1: "uploadId clipState = Some ''upload-1''" and h3: "cloudName clipState = Some ''cloud''"
    by (simp_all add: clipState_def draftState_def session_def)
  have h2: "''upload-1'' \<noteq> []" and h4: "''cloud'' \<noteq> []" by simp_all
  have h5: "completeResponse okEnv = Response 200 (Json (Some ''https://video.example/1''))"
    by (simp add: okEnv_def)
  have h6: "ok 200" by (simp add: ok_def)
  have h7: "\<forall>callback. onSuccess defaultProps = Some callback
              \<longrightarrow> callback (Some ''https://video.example/1'')"
    by (simp add: defaultProps_def)
  have t: "title clipState = ''clip''" by (simp add: clipState_def draftState_def)
  from C9_reset_on_completion[OF h1 h2 h3 h4 h5 h6 h7, of clipState]
  have r: "fst (completeUpload defaultProps okEnv clipState clipState) = initialState"
    and e: "title (fst (completeUpload defaultProps okEnv clipState clipState)) = []"
    by blast+
  show ?thesis by (intro conjI h1 h3 h5 h6 r t e)
qed

theorem C9_reset_on_completion_counterexample:
  "status (uploadProgress draftState) = Idle
   \<and> title (cancel draftState) = ''clip''
   \<and> videoFile (cancel draftState) = Some clip
   \<and> cancel draftState \<noteq> initialState
   \<and> cancel draftState \<noteq> resetForm draftState"
proof -
  have a: "title (cancel draftState) = ''clip''"
    by (simp add: cancel_def draftState_def)
  have b: "title initialState = []" "title (resetForm draftState) = []"
    by (simp_all add: initialState_def resetForm_def)
  have c: "cancel draftState \<noteq> initialState" "cancel draftState \<noteq> resetForm draftState"
    using a b by auto
  have d: "status (uploadProgress draftState) = Idle"
    by (simp add: draftState_def initialState_def initialProgress_def)
  have e: "videoFile (cancel draftState) = Some clip"
    by (simp add: cancel_def draftState_def)
  show ?thesis using a c d e by simp
qed

section \<open>Traces\<close>

lemma onSuccessCalls_append [simp]:
  "onSuccessCalls (xs @ ys) = onSuccessCalls xs @ onSuccessCalls ys"
  by (induction xs rule: onSuccessCalls.induct) simp_all

lemma chunkRequests_append [simp]:
  "chunkRequests (xs @ ys) = chunkRequests xs @ chunkRequests ys"
  by (induction xs rule: chunkRequests.induct) simp_all

lemma stored_append [simp]: "stored (xs @ ys) = stored xs @ stored ys"
  by (induction xs rule: stored.induct) simp_all

section \<open>Completion handshake\<close>

lemma completionCaught_result:
  "completionCaught st evs = (st', evs') \<Longrightarrow>
     status (uploadProgress st') = Error \<and> error (uploadProgress st') = Some FailedToComplete
     \<and> onSuccessCalls evs' = onSuccessCalls evs"
  by (auto simp: completionCaught_def Let_def)

text \<open>
  C3. Whenever \<open>completeUpload\<close> sends the completion request and the answer has a status
  outside 200 to 299, the job ends with status \<open>error\<close> and \<open>onSuccess\<close> is not called. In
  every run \<open>onSuccess\<close> is called at most once; when it is called, the completion
  response had a 2xx status, the URL passed is \<open>data.video?.url\<close> of its body, and the
  completion request precedes the call in the trace.
\<close>

theorem C3_completion_outcome:
  assumes "completeUpload p env snap st = (st', evs)"
  shows "((\<exists>e \<in> set evs. isCompletePost e) \<and> (\<exists>s b. completeResponse env = Response s b \<and> \<not> ok s)
            \<longrightarrow> status (uploadProgress st') = Error \<and> onSuccessCalls evs = [])
       \<and> length (onSuccessCalls evs) \<le> 1
       \<and> (\<forall>url. OnSuccess url \<in> set evs \<longrightarrow>
             (\<exists>s. completeResponse env = Response s (Json url) \<and> ok s)
             \<and> onSuccessCalls evs = [url]
             \<and> (\<exists>e \<in> set (takeWhile (\<lambda>e. e \<noteq> OnSuccess url) evs). isCompletePost e))"
  using assms
  by (auto simp: completeUpload_def Let_def completionCaught_def completionFinish_def
      split: option.splits response.splits body.splits if_splits)

theorem C3_completion_outcome_witness:
  "(\<exists>e \<in> set (snd (completeUpload defaultProps refusingEnv clipState clipState)). isCompletePost e)
   \<and> completeResponse refusingEnv = Response 500 JsonNull \<and> \<not> ok 500
   \<and> status (uploadProgress (fst (completeUpload defaultProps refusingEnv clipState clipState))) = Error
   \<and> onSuccessCalls (snd (completeUpload defaultProps refusingEnv clipState clipState)) = []
   \<and> OnSuccess (Some ''https://video.example/1'')
        \<in> set (snd (completeUpload defaultProps okEnv clipState clipState))
   \<and> onSuccessCalls (snd (completeUpload defaultProps okEnv clipState clipState))
        = [Some ''https://video.example/1'']"
proof -
  let ?bad = "completeUpload defaultProps refusingEnv clipState clipState"
  let ?good = "completeUpload defaultProps okEnv clipState clipState"
  have ids: "uploadId clipState = Some ''upload-1''" "cloudName clipState = Some ''cloud''"
    by (simp_all add: clipState_def draftState_def session_def)
  have r: "completeResponse refusingEnv = Response 500 JsonNull"
    by (simp add: refusingEnv_def)
  have n: "\<not> ok 500" by (simp add: ok_def)
  have sent: "\<exists>e \<in> set (snd ?bad). isCompletePost e"
    using ids r n by (simp add: completeUpload_def Let_def completionCaught_def)
  have called: "OnSuccess (Some ''https://video.example/1'') \<in> set (snd ?good)"
    using ids
    by (simp add: completeUpload_def Let_def completionFinish_def okEnv_def ok_def defaultProps_def)
  have bad: "status (uploadProgress (fst ?bad)) = Error \<and> onSuccessCalls (snd ?bad) = []"
    using C3_completion_outcome[of defaultProps refusingEnv clipState clipState "fst ?bad" "snd ?bad"]
      sent r n by auto
  have good: "onSuccessCalls (snd ?good) = [Some ''https://video.example/1'']"
    using C3_completion_outcome[of defaultProps okEnv clipState clipState "fst ?good" "snd ?good"]
      called by auto
  show ?thesis using sent r n bad called good by simp
qed

section \<open>Chunk transfer\<close>

lemma length_markChunk [simp]: "length (markChunk i b cs) = length cs"
  by (simp add: markChunk_def)

lemma nth_markChunk:
  "k < length cs \<Longrightarrow> markChunk i b cs ! k = (if k = i then (cs ! k)\<lparr>uploaded := b\<rparr> else cs ! k)"
  by (simp add: markChunk_def nth_enumerate_eq)

lemma chunkUploaded_fields [simp]:
  "uploaded' (chunkUploaded env snap i ub prev) = ub"
  "total' (chunkUploaded env snap i ub prev) = total' prev"
  "chunks (chunkUploaded env snap i ub prev) = markChunk i True (chunks prev)"
  "status (chunkUploaded env snap i ub prev) = status prev"
  "percentage (chunkUploaded env snap i ub prev) = percentOf ub (total' prev)"
  "speed (chunkUploaded env snap i ub prev) = js_div (js_int ub) (elapsedSeconds env i)"
  "remaining (chunkUploaded env snap i ub prev)
     = js_div (js_int (total' (uploadProgress snap) - ub))
         (js_div (js_int ub) (elapsedSeconds env i))"
  by (simp_all add: chunkUploaded_def Let_def)

lemma chunkFailed_fields [simp]:
  "uploaded' (chunkFailed i prev) = uploaded' prev"
  "total' (chunkFailed i prev) = total' prev"
  "chunks (chunkFailed i prev) = markChunk i False (chunks prev)"
  "status (chunkFailed i prev) = status prev"
  "percentage (chunkFailed i prev) = percentage prev"
  "speed (chunkFailed i prev) = speed prev"
  "remaining (chunkFailed i prev) = remaining prev"
  by (simp_all add: chunkFailed_def)

lemma flag_step:
  assumes "\<forall>k<length cs. U k = (if Suc i \<le> k \<and> k < Suc i + m then T k
                                else uploaded (markChunk i b cs ! k))"
      and "b = T i"
  shows "\<forall>k<length cs. U k = (if i \<le> k \<and> k < i + Suc m then T k else uploaded (cs ! k))"
proof (intro allI impI)
  fix k assume k: "k < length cs"
  then have u: "U k = (if Suc i \<le> k \<and> k < Suc i + m then T k
                      else uploaded (markChunk i b cs ! k))"
    using assms(1) by simp
  show "U k = (if i \<le> k \<and> k < i + Suc m then T k else uploaded (cs ! k))"
  proof (cases "k = i")
    case True
    then show ?thesis using u k assms(2) by (simp add: nth_markChunk)
  next
    case False
    then show ?thesis using u k by (auto simp: nth_markChunk)
  qed
qed

lemma uploadChunk_initialized:
  assumes "initialized snap"
  shows "fst (uploadChunk env snap i c) = Returned \<longleftrightarrow> transferred env i"
    and "chunkRequests (snd (uploadChunk env snap i c)) = [index c]"
    and "onSuccessCalls (snd (uploadChunk env snap i c)) = []"
    and "\<forall>e \<in> set (snd (uploadChunk env snap i c)). \<not> isCompletePost e"
    and "stored (snd (uploadChunk env snap i c)) = []"
  using assms
  by (auto simp: initialized_def falsy_def uploadChunk_def transferred_def Let_def
      split: option.splits response.splits body.splits)

lemma uploadChunk_refused:
  assumes "initialized snap" and "chunkResponse env i = Response s b" and "\<not> ok s"
  shows "fst (uploadChunk env snap i c) = Threw (FailedToUploadChunk (index c))"
  using assms
  by (auto simp: initialized_def falsy_def uploadChunk_def Let_def split: option.splits)

lemma uploadLoop_resume:
  assumes "enableResume p" and "initialized snap"
  shows "\<exists>st' evs'. uploadLoop p env snap rest i ub st evs = (Returned, st', evs')
     \<and> chunkRequests evs' = chunkRequests evs @ map index rest
     \<and> length (chunks (uploadProgress st')) = length (chunks (uploadProgress st))
     \<and> (\<forall>k < length (chunks (uploadProgress st)).
           uploaded (chunks (uploadProgress st') ! k)
             = (if i \<le> k \<and> k < i + length rest then transferred env k
                else uploaded (chunks (uploadProgress st) ! k)))"
proof (induction rest arbitrary: i ub st evs)
  case Nil
  then show ?case by auto
next
  case (Cons c rest)
  obtain out sent where u: "uploadChunk env snap i c = (out, sent)" by (cases "uploadChunk env snap i c")
  have req: "chunkRequests sent = [index c]"
    using uploadChunk_initialized(2)[OF assms(2), of env i c] u by simp
  show ?case
  proof (cases out)
    case Returned
    then have tr: "transferred env i" using uploadChunk_initialized(1)[OF assms(2), of env i c] u by simp
    let ?ub = "ub + chunk c"
    let ?next = "chunkUploaded env snap i ?ub (uploadProgress st)"
    let ?st = "st\<lparr>uploadProgress := ?next\<rparr>"
    let ?evs = "evs @ sent @ [SetProgress (ChunkUploaded i) ?next]"
    have step: "uploadLoop p env snap (c # rest) i ub st evs = uploadLoop p env snap rest (Suc i) ?ub ?st ?evs"
      using u Returned by (simp add: Let_def)
    from Cons.IH[of "Suc i" ?ub ?st ?evs]
    obtain st' evs' where r: "uploadLoop p env snap rest (Suc i) ?ub ?st ?evs = (Returned, st', evs')"
      and q: "chunkRequests evs' = chunkRequests ?evs @ map index rest"
      and l: "length (chunks (uploadProgress st')) = length (chunks (uploadProgress ?st))"
      and f: "\<forall>k < length (chunks (uploadProgress ?st)).
           uploaded (chunks (uploadProgress st') ! k)
             = (if Suc i \<le> k \<and> k < Suc i + length rest then transferred env k
                else uploaded (chunks (uploadProgress ?st) ! k))"
      by blast
    have "\<forall>k < length (chunks (uploadProgress st)).
           uploaded (chunks (uploadProgress st') ! k)
             = (if i \<le> k \<and> k < i + length (c # rest) then transferred env k
                else uploaded (chunks (uploadProgress st) ! k))"
    proof -
      have f': "\<forall>k < length (chunks (uploadProgress st)).
           uploaded (chunks (uploadProgress st') ! k)
             = (if Suc i \<le> k \<and> k < Suc i + length rest then transferred env k
                else uploaded (markChunk i True (chunks (uploadProgress st)) ! k))"
        using f by simp
      have b: "True = transferred env i" using tr by simp
      from flag_step[OF f' b] show ?thesis by simp
    qed
    then show ?thesis using step r q l req by simp
  next
    case (Threw e)
    then have tr: "\<not> transferred env i" using uploadChunk_initialized(1)[OF assms(2), of env i c] u by simp
    let ?next = "chunkFailed i (uploadProgress st)"
    let ?st = "st\<lparr>uploadProgress := ?next\<rparr>"
    let ?evs = "evs @ sent @ [SetProgress (ChunkFailed i) ?next]"
    have step: "uploadLoop p env snap (c # rest) i ub st evs = uploadLoop p env snap rest (Suc i) ub ?st ?evs"
      using u Threw assms(1) by (simp add: Let_def)
    from Cons.IH[of "Suc i" ub ?st ?evs]
    obtain st' evs' where r: "uploadLoop p env snap rest (Suc i) ub ?st ?evs = (Returned, st', evs')"
      and q: "chunkRequests evs' = chunkRequests ?evs @ map index rest"
      and l: "length (chunks (uploadProgress st')) = length (chunks (uploadProgress ?st))"
      and f: "\<forall>k < length (chunks (uploadProgress ?st)).
           uploaded (chunks (uploadProgress st') ! k)
             = (if Suc i \<le> k \<and> k < Suc i + length rest then transferred env k
                else uploaded (chunks (uploadProgress ?st) ! k))"
      by blast
    have "\<forall>k < length (chunks (uploadProgress st)).
           uploaded (chunks (uploadProgress st') ! k)
             = (if i \<le> k \<and> k < i + length (c # rest) then transferred env k
                else uploaded (chunks (uploadProgress st) ! k))"
    proof -
      have f': "\<forall>k < length (chunks (uploadProgress st)).
           uploaded (chunks (uploadProgress st') ! k)
             = (if Suc i \<le> k \<and> k < Suc i + length rest then transferred env k
                else uploaded (markChunk i False (chunks (uploadProgress st)) ! k))"
        using f by simp
      have b: "False = transferred env i" using tr by simp
      from flag_step[OF f' b] show ?thesis by simp
    qed
    then show ?thesis using step r q l req by simp
  qed
qed

lemma uploadLoop_abort:
  assumes "\<not> enableResume p" and "initialized snap"
      and "k < length rest" and "\<forall>j<k. transferred env (i + j)" and "\<not> transferred env (i + k)"
  shows "\<exists>st' evs'. uploadLoop p env snap rest i ub st evs
            = (fst (uploadChunk env snap (i + k) (rest ! k)), st', evs')
     \<and> chunkRequests evs' = chunkRequests evs @ map index (take (Suc k) rest)
     \<and> (\<forall>e \<in> set evs'. isCompletePost e \<longrightarrow> e \<in> set evs)"
  using assms(3,4,5)
proof (induction rest arbitrary: i k ub st evs)
  case Nil
  then show ?case by simp
next
  case (Cons c rest)
  obtain out sent where u: "uploadChunk env snap i c = (out, sent)" by (cases "uploadChunk env snap i c")
  have req: "chunkRequests sent = [index c]"
    using uploadChunk_initialized(2)[OF assms(2), of env i c] u by simp
  have nc: "\<forall>e \<in> set sent. \<not> isCompletePost e"
    using uploadChunk_initialized(4)[OF assms(2), of env i c] u by simp
  show ?case
  proof (cases k)
    case 0
    then have "\<not> transferred env i" using Cons.prems by simp
    then obtain e where e: "out = Threw e"
      using uploadChunk_initialized(1)[OF assms(2), of env i c] u by (cases out) auto
    then show ?thesis using u 0 assms(1) req nc by auto
  next
    case (Suc k')
    then have "transferred env i" using Cons.prems(2) by force
    then have out: "out = Returned"
      using uploadChunk_initialized(1)[OF assms(2), of env i c] u by simp
    have k': "k' < length rest" using Cons.prems(1) Suc by simp
    have pre: "\<forall>j<k'. transferred env (Suc i + j)"
    proof (intro allI impI)
      fix j assume "j < k'"
      then have "Suc j < k" using Suc by simp
      then show "transferred env (Suc i + j)" using Cons.prems(2) by fastforce
    qed
    have bad: "\<not> transferred env (Suc i + k')" using Cons.prems(3) Suc by simp
    let ?ub = "ub + chunk c"
    let ?next = "chunkUploaded env snap i ?ub (uploadProgress st)"
    let ?st = "st\<lparr>uploadProgress := ?next\<rparr>"
    let ?evs = "evs @ sent @ [SetProgress (ChunkUploaded i) ?next]"
    have step: "uploadLoop p env snap (c # rest) i ub st evs = uploadLoop p env snap rest (Suc i) ?ub ?st ?evs"
      using u out by (simp add: Let_def)
    from Cons.IH[OF k' pre bad, of ?ub ?st ?evs]
    obtain st' evs' where r: "uploadLoop p env snap rest (Suc i) ?ub ?st ?evs
            = (fst (uploadChunk env snap (Suc i + k') (rest ! k')), st', evs')"
      and q: "chunkRequests evs' = chunkRequests ?evs @ map index (take (Suc k') rest)"
      and n: "\<forall>e \<in> set evs'. isCompletePost e \<longrightarrow> e \<in> set ?evs"
      by blast
    have "\<forall>e \<in> set evs'. isCompletePost e \<longrightarrow> e \<in> set evs"
      using n nc by auto
    then show ?thesis using step r q req Suc by simp
  qed
qed


lemma initializeUpload_trace:
  assumes "initializeUpload p env snap st = Some (out, st1, evs1)"
  shows "chunkRequests evs1 = []" and "onSuccessCalls evs1 = []"
    and "\<forall>e \<in> set evs1. \<not> isCompletePost e"
  using assms
  by (auto simp: initializeUpload_def Let_def
      split: option.splits response.splits body.splits if_splits)

lemma refused_not_transferred:
  "chunkResponse env k = Response s b \<Longrightarrow> \<not> ok s \<Longrightarrow> \<not> transferred env k"
  by (simp add: transferred_def)

text \<open>
  C2. Let the closure hold an initialised session and let the request of chunk \<open>k\<close> be
  answered with a status outside 200 to 299. With \<open>enableResume\<close>, \<open>uploadChunks\<close> returns
  normally, the chunk requests of the run are those of all chunks, once each and in
  order, and chunk \<open>k\<close> ends with \<open>uploaded = false\<close>. Without it, when the chunks before
  \<open>k\<close> were transferred, \<open>uploadChunks\<close> throws the failure of chunk \<open>k\<close> after the requests
  of chunks 0 to \<open>k\<close> and no other, and \<open>handleUpload\<close> ends with status \<open>error\<close>, the same
  chunk requests and no completion request.
\<close>

theorem C2_chunk_failure_policy:
  assumes "initialized snap"
      and "k < length (chunks (uploadProgress snap))"
      and "chunkResponse env k = Response s b" and "\<not> ok s"
  shows "(enableResume p \<longrightarrow>
            (\<exists>st' evs. uploadChunks p env snap st = (Returned, st', evs)
               \<and> chunkRequests evs = map index (chunks (uploadProgress snap))
               \<and> (k < length (chunks (uploadProgress st))
                     \<longrightarrow> \<not> uploaded (chunks (uploadProgress st') ! k))))
       \<and> (\<not> enableResume p \<and> (\<forall>j<k. transferred env j) \<longrightarrow>
            (\<exists>st' evs. uploadChunks p env snap st
                  = (Threw (FailedToUploadChunk (index (chunks (uploadProgress snap) ! k))), st', evs)
               \<and> chunkRequests evs = map index (take (Suc k) (chunks (uploadProgress snap))))
            \<and> (\<forall>f st1 evs1.
                  videoFile snap = Some f \<and> trim (title snap) \<noteq> []
                  \<and> initializeUpload p env snap st = Some (Returned, st1, evs1) \<longrightarrow>
                  (\<exists>st' evs. handleUpload p env snap st = Some (st', evs)
                     \<and> status (uploadProgress st') = Error
                     \<and> error (uploadProgress st')
                         = Some (FailedToUploadChunk (index (chunks (uploadProgress snap) ! k)))
                     \<and> chunkRequests evs = map index (take (Suc k) (chunks (uploadProgress snap)))
                     \<and> \<not> (\<exists>e \<in> set evs. isCompletePost e))))"
proof (intro conjI impI)
  let ?cs = "chunks (uploadProgress snap)"
  have ne: "?cs \<noteq> []" using assms(2) by auto
  have bad: "\<not> transferred env k" by (rule refused_not_transferred[OF assms(3,4)])
  {
    assume res: "enableResume p"
    from uploadLoop_resume[OF res assms(1), of env ?cs 0 0 st "[]"]
    obtain st' evs where r: "uploadLoop p env snap ?cs 0 0 st [] = (Returned, st', evs)"
      and q: "chunkRequests evs = map index ?cs"
      and f: "\<forall>j < length (chunks (uploadProgress st)).
           uploaded (chunks (uploadProgress st') ! j)
             = (if 0 \<le> j \<and> j < 0 + length ?cs then transferred env j
                else uploaded (chunks (uploadProgress st) ! j))"
      by auto
    have "k < length (chunks (uploadProgress st)) \<longrightarrow> \<not> uploaded (chunks (uploadProgress st') ! k)"
      using f assms(2) bad by simp
    then show "\<exists>st' evs. uploadChunks p env snap st = (Returned, st', evs)
               \<and> chunkRequests evs = map index ?cs
               \<and> (k < length (chunks (uploadProgress st))
                     \<longrightarrow> \<not> uploaded (chunks (uploadProgress st') ! k))"
      using r q ne by (simp add: uploadChunks_def)
  }
  {
    assume a: "\<not> enableResume p \<and> (\<forall>j<k. transferred env j)"
    then have nres: "\<not> enableResume p" and pre: "\<forall>j<k. transferred env (0 + j)" by simp_all
    have bad0: "\<not> transferred env (0 + k)" using bad by simp
    have thrown: "fst (uploadChunk env snap (0 + k) (?cs ! k)) = Threw (FailedToUploadChunk (index (?cs ! k)))"
      using uploadChunk_refused[OF assms(1), of env k s b "?cs ! k"] assms(3,4) by simp
    have abort: "\<exists>st' evs'. uploadChunks p env snap st0
            = (Threw (FailedToUploadChunk (index (?cs ! k))), st', evs')
         \<and> chunkRequests evs' = map index (take (Suc k) ?cs)
         \<and> (\<forall>e \<in> set evs'. \<not> isCompletePost e)" for st0
      using uploadLoop_abort[OF nres assms(1,2) pre bad0, of 0 st0 "[]"] thrown ne
      by (auto simp: uploadChunks_def)
    show "\<exists>st' evs. uploadChunks p env snap st
                  = (Threw (FailedToUploadChunk (index (?cs ! k))), st', evs)
               \<and> chunkRequests evs = map index (take (Suc k) ?cs)"
      using abort[of st] by blast
    show "\<forall>f st1 evs1.
                  videoFile snap = Some f \<and> trim (title snap) \<noteq> []
                  \<and> initializeUpload p env snap st = Some (Returned, st1, evs1) \<longrightarrow>
                  (\<exists>st' evs. handleUpload p env snap st = Some (st', evs)
                     \<and> status (uploadProgress st') = Error
                     \<and> error (uploadProgress st') = Some (FailedToUploadChunk (index (?cs ! k)))
                     \<and> chunkRequests evs = map index (take (Suc k) ?cs)
                     \<and> \<not> (\<exists>e \<in> set evs. isCompletePost e))"
    proof (intro allI impI)
      fix f st1 evs1
      assume h: "videoFile snap = Some f \<and> trim (title snap) \<noteq> []
                  \<and> initializeUpload p env snap st = Some (Returned, st1, evs1)"
      then have i: "initializeUpload p env snap st = Some (Returned, st1, evs1)" by simp
      from abort[of st1] obtain st2 evs2 where
        u: "uploadChunks p env snap st1 = (Threw (FailedToUploadChunk (index (?cs ! k))), st2, evs2)"
        and q: "chunkRequests evs2 = map index (take (Suc k) ?cs)"
        and n: "\<forall>e \<in> set evs2. \<not> isCompletePost e"
        by blast
      have "handleUpload p env snap st
              = Some (uploadCaught (FailedToUploadChunk (index (?cs ! k))) st2 (evs1 @ evs2))"
        using h u by (simp add: handleUpload_def)
      then show "\<exists>st' evs. handleUpload p env snap st = Some (st', evs)
                     \<and> status (uploadProgress st') = Error
                     \<and> error (uploadProgress st') = Some (FailedToUploadChunk (index (?cs ! k)))
                     \<and> chunkRequests evs = map index (take (Suc k) ?cs)
                     \<and> \<not> (\<exists>e \<in> set evs. isCompletePost e)"
        using q n initializeUpload_trace(1,3)[OF i]
        by (auto simp: uploadCaught_def Let_def)
    qed
  }
qed

lemma createChunks_clip: "createChunks 10 4 = Some clipChunks"
  by (simp add: createChunks_closed numChunks_def chunkAt_def slice_def clipChunks_def upt_rec)

lemma trim_clip: "trim ''clip'' = ''clip''"
  by code_simp

lemma clipState_fields:
  "videoFile clipState = Some clip" "title clipState = ''clip''"
  "uploadId clipState = Some ''upload-1''" "cloudName clipState = Some ''cloud''"
  "chunks (uploadProgress clipState) = clipChunks" "total' (uploadProgress clipState) = 10"
  "initialized clipState"
  by (simp_all add: clipState_def draftState_def session_def initialized_def falsy_def)

lemma clipProps_fields:
  "chunkSize clipProps = 4" "enableResume clipProps" "chunkSize strictProps = 4"
  "\<not> enableResume strictProps"
  by (simp_all add: clipProps_def strictProps_def defaultProps_def)

lemma failingEnv_fields:
  "chunkResponse failingEnv 1 = Response 500 JsonNull"
  "transferred failingEnv 0" "initResponse failingEnv = Response 200 (Json session)"
  by (simp_all add: failingEnv_def okEnv_def transferred_def ok_def)

theorem C2_chunk_failure_policy_witness:
  "initialized clipState \<and> 1 < length (chunks (uploadProgress clipState))
   \<and> chunkResponse failingEnv 1 = Response 500 JsonNull \<and> \<not> ok 500
   \<and> enableResume clipProps
   \<and> (\<exists>st' evs. uploadChunks clipProps failingEnv clipState clipState = (Returned, st', evs)
         \<and> chunkRequests evs = [0, 1, 2]
         \<and> \<not> uploaded (chunks (uploadProgress st') ! 1))
   \<and> \<not> enableResume strictProps \<and> transferred failingEnv 0
   \<and> (\<exists>st' evs. handleUpload strictProps failingEnv clipState clipState = Some (st', evs)
         \<and> status (uploadProgress st') = Error
         \<and> error (uploadProgress st') = Some (FailedToUploadChunk 1)
         \<and> chunkRequests evs = [0, 1]
         \<and> \<not> (\<exists>e \<in> set evs. isCompletePost e))"
proof -
  have h2: "1 < length (chunks (uploadProgress clipState))"
    by (simp add: clipState_fields clipChunks_def)
  have h4: "\<not> ok 500" by (simp add: ok_def)
  have pre: "\<forall>j<1. transferred failingEnv j" using failingEnv_fields(2) by simp
  have init: "initializeUpload strictProps failingEnv clipState clipState
      = Some (Returned,
           clipState\<lparr>uploadId := d_uploadId session, uploadUrl := d_uploadUrl session,
              uploadPreset := d_uploadPreset session, cloudName := d_cloudName session,
              uploadProgress := (uploadProgress clipState)\<lparr>total' := f_size clip, chunks := clipChunks, status := Uploading\<rparr>\<rparr>,
           [Fetch (InitPost (f_name clip) (f_size clip) (courseId strictProps)),
            SetProgress Initialized ((uploadProgress clipState)\<lparr>total' := f_size clip, chunks := clipChunks, status := Uploading\<rparr>)])"
    by (rule initializeUpload_ok[OF clipState_fields(1) failingEnv_fields(3)])
       (simp_all add: ok_def clip_def clipProps_fields createChunks_clip)
  have tt: "trim (title clipState) \<noteq> []" by (simp add: clipState_fields trim_clip)
  have idx: "map index (chunks (uploadProgress clipState)) = [0, 1, 2]"
    "map index (take (Suc 1) (chunks (uploadProgress clipState))) = [0, 1]"
    "index (chunks (uploadProgress clipState) ! 1) = 1"
    by (simp_all add: clipState_fields clipChunks_def)
  note thm1 = C2_chunk_failure_policy[OF clipState_fields(7) h2 failingEnv_fields(1) h4,
      of clipProps clipState]
  note thm2 = C2_chunk_failure_policy[OF clipState_fields(7) h2 failingEnv_fields(1) h4,
      of strictProps clipState]
  have a: "\<exists>st' evs. uploadChunks clipProps failingEnv clipState clipState = (Returned, st', evs)
         \<and> chunkRequests evs = [0, 1, 2]
         \<and> \<not> uploaded (chunks (uploadProgress st') ! 1)"
    using thm1 clipProps_fields(2) h2 unfolding idx by blast
  have b: "\<exists>st' evs. handleUpload strictProps failingEnv clipState clipState = Some (st', evs)
         \<and> status (uploadProgress st') = Error
         \<and> error (uploadProgress st') = Some (FailedToUploadChunk 1)
         \<and> chunkRequests evs = [0, 1]
         \<and> \<not> (\<exists>e \<in> set evs. isCompletePost e)"
    using thm2 clipProps_fields(4) pre clipState_fields(1) tt init unfolding idx by blast
  show ?thesis
    using clipState_fields(7) h2 failingEnv_fields(1,2) h4 clipProps_fields(2,4) a b by blast
qed

section \<open>Progress figures\<close>






section \<open>The transfer loop, round by round\<close>

lemma uploadChunk_events:
  "stored (snd (uploadChunk env snap i c)) = []"
  "successUpdates (snd (uploadChunk env snap i c)) = []"
  by (auto simp: uploadChunk_def Let_def split: option.splits response.splits body.splits)

lemma successUpdates_append [simp]:
  "successUpdates (xs @ ys) = successUpdates xs @ successUpdates ys"
  by (induction xs rule: successUpdates.induct) simp_all

lemma uploadLoop_Cons:
  "uploadLoop p env snap (c # rest) i ub st evs =
     (if fst (uploadChunk env snap i c) = Returned then
        uploadLoop p env snap rest (Suc i) (ub + chunk c)
          (st\<lparr>uploadProgress := chunkUploaded env snap i (ub + chunk c) (uploadProgress st)\<rparr>)
          (evs @ snd (uploadChunk env snap i c)
             @ [SetProgress (ChunkUploaded i)
                  (chunkUploaded env snap i (ub + chunk c) (uploadProgress st))])
      else if enableResume p then
        uploadLoop p env snap rest (Suc i) ub
          (st\<lparr>uploadProgress := chunkFailed i (uploadProgress st)\<rparr>)
          (evs @ snd (uploadChunk env snap i c)
             @ [SetProgress (ChunkFailed i) (chunkFailed i (uploadProgress st))])
      else (fst (uploadChunk env snap i c), st, evs @ snd (uploadChunk env snap i c)))"
proof (cases "uploadChunk env snap i c")
  case (Pair out sent)
  then show ?thesis by (cases out) (simp_all add: Let_def)
qed



lemma successPercentages_simps [simp]:
  "successPercentages [] = []"
  "successPercentages (xs @ ys) = successPercentages xs @ successPercentages ys"
  "successPercentages [SetProgress (ChunkUploaded i) pr] = [percentage pr]"
  "successPercentages [SetProgress (ChunkFailed i) pr] = []"
  "successPercentages (snd (uploadChunk env snap i c)) = []"
  by (simp_all add: successPercentages_def uploadChunk_events)





section \<open>Jobs\<close>






section \<open>The progress theorems on the sample job\<close>




section \<open>The empty file\<close>






section \<open>The handler as a whole\<close>

lemma uploadChunk_no_callback: "onSuccessCalls (snd (uploadChunk env snap i c)) = []"
  by (auto simp: uploadChunk_def Let_def split: option.splits response.splits body.splits)

lemma uploadLoop_no_callback:
  "onSuccessCalls (snd (snd (uploadLoop p env snap rest i ub st evs))) = onSuccessCalls evs"
  by (induction rest arbitrary: i ub st evs)
     (simp_all add: uploadLoop_Cons uploadChunk_no_callback del: uploadLoop.simps(2))

lemma uploadChunks_no_callback: "onSuccessCalls (snd (snd (uploadChunks p env snap st))) = []"
  by (simp add: uploadChunks_def uploadLoop_no_callback)

text \<open>In a whole run of the handler the callback is called at most once.\<close>

lemma handleUpload_onSuccess_once:
  assumes "handleUpload p env snap st = Some (st', evs)"
  shows "length (onSuccessCalls evs) \<le> 1"
proof (cases "videoFile snap")
  case None
  then show ?thesis using assms by (auto simp: handleUpload_def)
next
  case (Some f)
  show ?thesis
  proof (cases "trim (title snap) = []")
    case True
    then show ?thesis using assms Some by (auto simp: handleUpload_def)
  next
    case False
    from assms Some False obtain out st1 evs1 where
      i: "initializeUpload p env snap st = Some (out, st1, evs1)"
      by (auto simp: handleUpload_def split: option.splits)
    have c1: "onSuccessCalls evs1 = []" by (rule initializeUpload_trace(2)[OF i])
    obtain out2 st2 evs2 where u: "uploadChunks p env snap st1 = (out2, st2, evs2)"
      by (cases "uploadChunks p env snap st1") auto
    have c2: "onSuccessCalls evs2 = []" using uploadChunks_no_callback[of p env snap st1] u by simp
    obtain st3 evs3 where c: "completeUpload p env snap st2 = (st3, evs3)"
      by (cases "completeUpload p env snap st2") auto
    have c3: "length (onSuccessCalls evs3) \<le> 1"
      using c
      by (auto simp: completeUpload_def Let_def completionCaught_def completionFinish_def
          split: option.splits response.splits body.splits if_splits)
    show ?thesis
      using assms Some False i u c c1 c2 c3
      by (cases out; cases out2) (auto simp: handleUpload_def uploadCaught_def Let_def)
  qed
qed

text \<open>
  A handler made by a render that precedes every initialisation holds an empty chunk list
  and no upload id. Its run sends the session request and nothing else: the chunks and
  the ids stored by \<open>initializeUpload\<close> are not those its \<open>uploadChunks\<close> and
  \<open>completeUpload\<close> read.
\<close>

lemma handleUpload_first_render:
  assumes "videoFile snap = Some f" and "trim (title snap) \<noteq> []"
      and "chunks (uploadProgress snap) = []" and "uploadId snap = None"
      and "initializeUpload p env snap st = Some (Returned, st1, evs1)"
  shows "handleUpload p env snap st = Some (st1, evs1)"
  using assms by (simp add: handleUpload_def uploadChunks_def completeUpload_def)

lemma handleUpload_first_render_sample:
  "map_option (\<lambda>r. (status (uploadProgress (fst r)), filter isRequest (snd r)))
     (handleUpload clipProps okEnv draftState draftState)
   = Some (Uploading, [Fetch (InitPost ''clip.mp4'' 10 ''course-1'')])"
  by code_simp

end
